theory Spec2Isabelle
  imports Main
begin

text \<open>
  The publish action of Rush (\<open>apps/rush/src/actions/PublishAction.ts\<close>) sequences the
  update of package manifests and changelogs, git commands and registry publishes, each
  behind its own flag, and prints every command it runs or would run. The theory embeds
  the class in HOL: a run is the list of its calls to the outside, in order, together with
  its outcome. The theorems at the end state, for each property of the specification,
  what the code does.
\<close>

section \<open>Values of the host language\<close>

text \<open>
  The publish action is a TypeScript class. A string parameter of the command line holds a
  string, or \<open>null\<close> when the parameter is absent: the command-line parser, which is
  outside the source file, leaves it so. The code tests the value by truthiness
  (\<open>!!value\<close>), so the empty string counts as absent too, and interpolates it into
  strings, where \<open>null\<close> prints as the word itself.
\<close>

type_synonym env = "string \<rightharpoonup> string"

fun truthy :: "string option \<Rightarrow> bool" where
  "truthy None = False"
| "truthy (Some s) = (s \<noteq> [])"

fun toStr :: "string option \<Rightarrow> string" where
  "toStr None = ''null''"
| "toStr (Some s) = s"

text \<open>\<open>String.prototype.split\<close> with a one-character separator.\<close>

fun js_split :: "char \<Rightarrow> string \<Rightarrow> string list" where
  "js_split c [] = [[]]"
| "js_split c (x # xs) =
     (if x = c then [] # js_split c xs
      else (case js_split c xs of [] \<Rightarrow> [[x]] | piece # pieces \<Rightarrow> (x # piece) # pieces))"

declare js_split.simps [simp del]

text \<open>\<open>Array.prototype.join\<close>.\<close>

fun js_join :: "string \<Rightarrow> string list \<Rightarrow> string" where
  "js_join sep [] = []"
| "js_join sep [x] = x"
| "js_join sep (x # y # ys) = x @ sep @ js_join sep (y # ys)"

text \<open>\<open>String.prototype.indexOf\<close>: the first position of the pattern, or \<open>-1\<close>.\<close>

fun js_indexOf :: "string \<Rightarrow> string \<Rightarrow> int" where
  "js_indexOf [] p = (if p = [] then 0 else - 1)"
| "js_indexOf (x # xs) p =
     (if take (length p) (x # xs) = p then 0
      else (let r = js_indexOf xs p in if r < 0 then - 1 else r + 1))"

text \<open>\<open>String.prototype.substring\<close> with one argument: a negative start counts as 0.\<close>

definition js_substring :: "string \<Rightarrow> int \<Rightarrow> string" where
  "js_substring s i = drop (nat i) s"

text \<open>\<open>Array.prototype.indexOf\<close>.\<close>

fun array_indexOf :: "'a list \<Rightarrow> 'a \<Rightarrow> int" where
  "array_indexOf [] v = - 1"
| "array_indexOf (x # xs) v =
     (if x = v then 0
      else (let r = array_indexOf xs v in if r < 0 then - 1 else r + 1))"

text \<open>\<open>String.prototype.startsWith\<close> and \<open>String.prototype.endsWith\<close>.\<close>

definition startsWith :: "string \<Rightarrow> string \<Rightarrow> bool" where
  "startsWith s p = (take (length p) s = p)"

definition endsWith :: "string \<Rightarrow> string \<Rightarrow> bool" where
  "endsWith s p = (length p \<le> length s \<and> drop (length s - length p) s = p)"

text \<open>A non-negative integer printed in decimal, as string concatenation prints a number.\<close>

definition string_of_digit :: "nat \<Rightarrow> char" where
  "string_of_digit n = ''0123456789'' ! n"

fun string_of_nat :: "nat \<Rightarrow> string" where
  "string_of_nat n =
     (if n < 10 then [string_of_digit n]
      else string_of_nat (n div 10) @ [string_of_digit (n mod 10)])"

declare string_of_nat.simps [simp del]

section \<open>Data model\<close>

text \<open>
  Modelled from the spec: the enumeration \<open>ChangeType\<close> is declared in the library, outside
  the source file; its members and their order are the ones the specification lists
  (none, dependency, patch, minor, major). The code compares members as numbers.
\<close>

datatype ChangeType = none | dependency | patch | minor | major

fun ChangeType_value :: "ChangeType \<Rightarrow> nat" where
  "ChangeType_value none = 0"
| "ChangeType_value dependency = 1"
| "ChangeType_value patch = 2"
| "ChangeType_value minor = 3"
| "ChangeType_value major = 4"

record IChangeInfo =
  packageName :: string
  changeType :: ChangeType
  newVersion :: string

record RushConfigurationProject =
  project_packageName :: string
  projectFolder :: string
  shouldPublish :: bool
  packageJson_version :: string

text \<open>
  Modelled from the spec: the class \<open>PrereleaseToken\<close> is outside the source file. It is
  built from the prerelease name and the suffix, and \<open>hasValue\<close> is true iff either is set.
\<close>

record PrereleaseToken =
  token_prereleaseName :: "string option"
  token_suffix :: "string option"

definition new_PrereleaseToken :: "string option \<Rightarrow> string option \<Rightarrow> PrereleaseToken" where
  "new_PrereleaseToken prereleaseName suffix =
     \<lparr>token_prereleaseName = prereleaseName, token_suffix = suffix\<rparr>"

definition hasValue :: "PrereleaseToken \<Rightarrow> bool" where
  "hasValue t = (truthy (token_prereleaseName t) \<or> truthy (token_suffix t))"

text \<open>
  Everything the action reads and does not compute: the values of its command-line
  parameters, the process (environment, working directory, clock), the loaded
  configuration, and the answers of the collaborators that live outside the source file.
  \<open>projectsByName\<close> is a JavaScript \<open>Map\<close>: an association list in insertion order,
  whose keys are unique. \<open>sortChangeRequests\<close> is the ordered list of change records that
  change resolution yields.
\<close>

record world =
  apply_value :: bool
  targetBranch_value :: "string option"
  publish_value :: bool
  addCommitDetails_value :: bool
  regenerateChangelogs_value :: bool
  registryUrl_value :: "string option"
  npmAuthToken_value :: "string option"
  includeAll_value :: bool
  prereleaseName_value :: "string option"
  suffix_value :: "string option"
  force_value :: bool
  process_env :: env
  process_cwd :: string
  EOL :: string
  Date_getTime :: nat
  path_relative :: "string \<Rightarrow> string \<Rightarrow> string"
  colors_green :: "string \<Rightarrow> string"
  projectsByName :: "(string \<times> RushConfigurationProject) list"
  npmToolFilename :: string
  GitPolicy_check :: bool
  sortChangeRequests :: "IChangeInfo list"
  Npm_publishedVersions :: "string \<Rightarrow> string \<Rightarrow> env \<Rightarrow> string list"
  createTagname :: "string \<Rightarrow> string \<Rightarrow> string"

section \<open>Effects\<close>

text \<open>
  What a run does to the outside is the list of its calls, in order: lines printed, calls
  to the collaborators, processes spawned. A collaborator is taken to return; an exception
  it throws is not caught anywhere in the action, so a run in which one throws leaves a
  prefix of the list. The one exception the action's own code can raise is the
  \<open>TypeError\<close> of reading a field of \<open>undefined\<close>, when a name is not a key of the map.
\<close>

datatype event =
    ConsoleLog string
  | LoadFromDefaultLocation
  | GitPolicyCheck
  | ProcessExit int
  | RegenerateChangelogs
  | FindChangeRequests bool PrereleaseToken
  | SortChangeRequests
  | UpdatePackages bool PrereleaseToken
  | UpdateChangelogs bool
  | DeleteAll bool
  | ExecuteCommand string "string list" string bool "env option"
  | PublishedVersions string string env

datatype error = TypeError

type_synonym 'a action = "event list \<times> (error + 'a)"

definition ret :: "'a \<Rightarrow> 'a action" where
  "ret x = ([], Inr x)"

definition throw :: "error \<Rightarrow> 'a action" where
  "throw e = ([], Inl e)"

definition emit :: "event \<Rightarrow> unit action" where
  "emit e = ([e], Inr ())"

definition bind :: "'a action \<Rightarrow> ('a \<Rightarrow> 'b action) \<Rightarrow> 'b action" where
  "bind m f =
     (case m of
        (t, Inl e) \<Rightarrow> (t, Inl e)
      | (t, Inr x) \<Rightarrow> (case f x of (t', r) \<Rightarrow> (t @ t', r)))"

text \<open>A block of statements, and a \<open>for\<close> loop over a list.\<close>

fun seqs :: "unit action list \<Rightarrow> unit action" where
  "seqs [] = ret ()"
| "seqs (m # ms) = bind m (\<lambda>_. seqs ms)"

fun forEach :: "('a \<Rightarrow> unit action) \<Rightarrow> 'a list \<Rightarrow> unit action" where
  "forEach f [] = ret ()"
| "forEach f (x # xs) = bind (f x) (\<lambda>_. forEach f xs)"

definition trace :: "'a action \<Rightarrow> event list" where
  "trace m = fst m"

definition outcome :: "'a action \<Rightarrow> error + 'a" where
  "outcome m = snd m"

section \<open>The command gate\<close>

definition getEnvArgs :: "world \<Rightarrow> env" where
  "getEnvArgs w = (\<lambda>key. process_env w key)"

text \<open>
  \<open>_execCommand\<close>. The working directory defaults to the current one. The merged
  environment \<open>envArgs\<close> is computed and not used: the process gets \<open>env\<close> as passed.
\<close>

definition execCommand ::
  "world \<Rightarrow> bool \<Rightarrow> string \<Rightarrow> string list \<Rightarrow> string option \<Rightarrow> env option \<Rightarrow> unit action" where
  "execCommand w shouldExecute command args workingDirectoryArg env =
     (let workingDirectory =
            (case workingDirectoryArg of None \<Rightarrow> process_cwd w | Some d \<Rightarrow> d);
          relativeDirectory = path_relative w (process_cwd w) workingDirectory;
          relativeDirectory =
            (if relativeDirectory \<noteq> [] then ''('' @ relativeDirectory @ '')''
             else relativeDirectory)
      in seqs [
           emit (ConsoleLog (EOL w @ ''* '' @ (if shouldExecute then ''EXECUTING'' else ''DRYRUN'')
                   @ '': '' @ command @ '' '' @ js_join '' '' args @ '' '' @ relativeDirectory)),
           (if shouldExecute
            then emit (ExecuteCommand command args workingDirectory False env)
            else ret ())])"

section \<open>Git and registry steps\<close>

definition gitCheckout :: "world \<Rightarrow> string option \<Rightarrow> bool \<Rightarrow> unit action" where
  "gitCheckout w branchName createBranch =
     (let params = ''checkout '' @ (if createBranch then ''-b '' else '''') @ toStr branchName
      in execCommand w (truthy (targetBranch_value w)) ''git'' (js_split CHR '' '' params) None None)"

definition gitMerge :: "world \<Rightarrow> string \<Rightarrow> unit action" where
  "gitMerge w branchName =
     execCommand w (truthy (targetBranch_value w)) ''git''
       (js_split CHR '' '' (''merge '' @ branchName @ '' --no-edit'')) None None"

definition gitDeleteBranch :: "world \<Rightarrow> string \<Rightarrow> unit action" where
  "gitDeleteBranch w branchName =
     seqs [
       execCommand w (truthy (targetBranch_value w)) ''git''
         (js_split CHR '' '' (''branch -d '' @ branchName)) None None,
       execCommand w (truthy (targetBranch_value w)) ''git''
         (js_split CHR '' '' (''push origin --delete '' @ branchName)) None None]"

definition gitPull :: "world \<Rightarrow> unit action" where
  "gitPull w =
     execCommand w (truthy (targetBranch_value w)) ''git''
       (js_split CHR '' '' (''pull origin '' @ toStr (targetBranch_value w))) None None"

definition gitAddChanges :: "world \<Rightarrow> unit action" where
  "gitAddChanges w =
     execCommand w (truthy (targetBranch_value w)) ''git'' [''add'', ''.''] None None"

definition gitAddTag :: "world \<Rightarrow> string \<Rightarrow> string \<Rightarrow> unit action" where
  "gitAddTag w pkgName packageVersion =
     (let tagName = createTagname w pkgName packageVersion
      in execCommand w
           (truthy (targetBranch_value w) \<and> publish_value w \<and> \<not> truthy (registryUrl_value w))
           ''git''
           [''tag'', ''-a'', tagName, ''-m'',
            [CHR 0x22] @ pkgName @ '' v'' @ packageVersion @ [CHR 0x22]]
           None None)"

text \<open>The body of the loop of \<open>_gitAddTags\<close>, for one change record.\<close>

definition gitAddTags_body :: "world \<Rightarrow> IChangeInfo \<Rightarrow> unit action" where
  "gitAddTags_body w change =
     (if ChangeType_value (changeType change) > ChangeType_value dependency
      then (case map_of (projectsByName w) (packageName change) of
              None \<Rightarrow> throw TypeError
            | Some project \<Rightarrow>
                if shouldPublish project
                then gitAddTag w (packageName change) (newVersion change)
                else ret ())
      else ret ())"

definition gitAddTags :: "world \<Rightarrow> IChangeInfo list \<Rightarrow> unit action" where
  "gitAddTags w orderedChanges = forEach (gitAddTags_body w) orderedChanges"

definition gitCommit :: "world \<Rightarrow> unit action" where
  "gitCommit w =
     execCommand w (truthy (targetBranch_value w)) ''git''
       [''commit'', ''-m'', [CHR 0x22] @ ''Applying package updates.'' @ [CHR 0x22]] None None"

definition gitPush :: "world \<Rightarrow> string option \<Rightarrow> unit action" where
  "gitPush w branchName =
     execCommand w (truthy (targetBranch_value w)) ''git''
       [''push'', ''origin'', ''HEAD:'' @ toStr branchName, ''--follow-tags'', ''--verbose'']
       None None"

definition npmPublish :: "world \<Rightarrow> string \<Rightarrow> string \<Rightarrow> unit action" where
  "npmPublish w pkgName packagePath =
     (let env = getEnvArgs w;
          args = [''publish'']
      in case map_of (projectsByName w) pkgName of
           None \<Rightarrow> throw TypeError
         | Some project \<Rightarrow>
             if shouldPublish project then
               (let registry = ''//registry.npmjs.org/'';
                    (env, registry) =
                      (if truthy (registryUrl_value w) then
                         (let registryUrl = the (registryUrl_value w)
                          in (env(''npm_config_registry'' \<mapsto> registryUrl),
                              js_substring registryUrl (js_indexOf registryUrl ''//'')))
                       else (env, registry));
                    args =
                      (if truthy (npmAuthToken_value w)
                       then args @ [''--'' @ registry @ '':_authToken='' @ the (npmAuthToken_value w)]
                       else args);
                    args = (if force_value w then args @ [''--force''] else args)
                in execCommand w (publish_value w) (npmToolFilename w) args
                     (Some packagePath) (Some env))
             else ret ())"

definition packageExists :: "world \<Rightarrow> RushConfigurationProject \<Rightarrow> bool action" where
  "packageExists w packageConfig =
     (let env = getEnvArgs w;
          env = (if truthy (registryUrl_value w)
                 then env(''npm_config_registry'' \<mapsto> the (registryUrl_value w))
                 else env);
          publishedVersions =
            Npm_publishedVersions w (project_packageName packageConfig)
              (projectFolder packageConfig) env
      in bind (emit (PublishedVersions (project_packageName packageConfig)
                       (projectFolder packageConfig) env))
           (\<lambda>_. ret (array_indexOf publishedVersions (packageJson_version packageConfig) \<ge> 0)))"

section \<open>The two workflows\<close>

text \<open>
  The body of the publish loop of \<open>_publishChanges\<close>, for one change record. The project
  folder is read from the map before \<open>_npmPublish\<close> is called.
\<close>

definition publishChanges_body :: "world \<Rightarrow> IChangeInfo \<Rightarrow> unit action" where
  "publishChanges_body w change =
     (if ChangeType_value (changeType change) > ChangeType_value dependency
      then (case map_of (projectsByName w) (packageName change) of
              None \<Rightarrow> throw TypeError
            | Some project \<Rightarrow> npmPublish w (packageName change) (projectFolder project))
      else ret ())"

definition publishChanges :: "world \<Rightarrow> PrereleaseToken \<Rightarrow> unit action" where
  "publishChanges w prereleaseToken =
     (let orderedChanges = sortChangeRequests w
      in seqs [
           emit (FindChangeRequests (addCommitDetails_value w) prereleaseToken),
           emit SortChangeRequests,
           (if length orderedChanges > 0 then
              (let tempBranch = ''publish-'' @ string_of_nat (Date_getTime w)
               in seqs [
                    gitCheckout w (Some tempBranch) True,
                    emit (UpdatePackages (apply_value w) prereleaseToken),
                    (if \<not> hasValue prereleaseToken then
                       seqs [
                         emit (UpdateChangelogs (apply_value w)),
                         emit (DeleteAll (apply_value w \<or> truthy (targetBranch_value w)))]
                     else ret ()),
                    gitAddChanges w,
                    gitCommit w,
                    gitPush w (Some tempBranch),
                    forEach (publishChanges_body w) orderedChanges,
                    gitAddTags w orderedChanges,
                    gitPush w (Some tempBranch),
                    gitCheckout w (targetBranch_value w) False,
                    gitPull w,
                    gitMerge w tempBranch,
                    gitPush w (targetBranch_value w),
                    gitDeleteBranch w tempBranch])
            else ret ())])"

text \<open>
  \<open>_publishAll\<close>: the loop over the map carries the local variable \<open>updated\<close>. The
  disjunction short-circuits: with \<open>--force\<close> the registry is not asked.
\<close>

fun publishAll_forEach ::
  "world \<Rightarrow> (string \<times> RushConfigurationProject) list \<Rightarrow> bool \<Rightarrow> bool action" where
  "publishAll_forEach w [] updated = ret updated"
| "publishAll_forEach w ((pkgName, packageConfig) # rest) updated =
     bind
       (if shouldPublish packageConfig then
          bind (if force_value w then ret True
                else bind (packageExists w packageConfig) (\<lambda>ex. ret (\<not> ex)))
            (\<lambda>cond.
               if cond then
                 bind (npmPublish w pkgName (projectFolder packageConfig))
                   (\<lambda>_. bind (gitAddTag w pkgName (packageJson_version packageConfig))
                     (\<lambda>_. ret True))
               else
                 bind (emit (ConsoleLog (''Skip '' @ pkgName @ ''. Not updated.'')))
                   (\<lambda>_. ret updated))
        else ret updated)
       (\<lambda>updated'. publishAll_forEach w rest updated')"

definition publishAll :: "world \<Rightarrow> unit action" where
  "publishAll w =
     bind (publishAll_forEach w (projectsByName w) False)
       (\<lambda>updated. if updated then gitPush w (targetBranch_value w) else ret ())"

section \<open>The entry point\<close>

definition onExecute :: "world \<Rightarrow> unit action" where
  "onExecute w =
     seqs [
       emit (ConsoleLog (''Starting '' @ [CHR 0x22] @ ''rush publish'' @ [CHR 0x22] @ '' '' @ EOL w)),
       emit LoadFromDefaultLocation,
       emit GitPolicyCheck,
       (if \<not> GitPolicy_check w then emit (ProcessExit 1)
        else if regenerateChangelogs_value w then
          seqs [emit (ConsoleLog ''Regenerating changelogs''), emit RegenerateChangelogs]
        else
          seqs [
            (if includeAll_value w \<and> publish_value w then publishAll w
             else publishChanges w
                    (new_PrereleaseToken (prereleaseName_value w) (suffix_value w))),
            emit (ConsoleLog (EOL w @ colors_green w ''Rush publish finished successfully.''))])]"

section \<open>Observations on runs\<close>

fun is_ExecuteCommand :: "event \<Rightarrow> bool" where
  "is_ExecuteCommand (ExecuteCommand c a d s e) = True"
| "is_ExecuteCommand _ = False"

fun is_ConsoleLog :: "event \<Rightarrow> bool" where
  "is_ConsoleLog (ConsoleLog s) = True"
| "is_ConsoleLog _ = False"

text \<open>What one call of the gate prints and spawns, written out once for the theorems.\<close>

definition working_directory :: "world \<Rightarrow> string option \<Rightarrow> string" where
  "working_directory w d = (case d of None \<Rightarrow> process_cwd w | Some x \<Rightarrow> x)"

definition gate_line :: "world \<Rightarrow> bool \<Rightarrow> string \<Rightarrow> string list \<Rightarrow> string option \<Rightarrow> string" where
  "gate_line w shouldRun command args d =
     EOL w @ ''* '' @ (if shouldRun then ''EXECUTING'' else ''DRYRUN'') @ '': '' @ command
       @ '' '' @ js_join '' '' args @ '' ''
       @ (if path_relative w (process_cwd w) (working_directory w d) = [] then []
          else ''('' @ path_relative w (process_cwd w) (working_directory w d) @ '')'')"

definition gate_events ::
  "world \<Rightarrow> bool \<Rightarrow> string \<Rightarrow> string list \<Rightarrow> string option \<Rightarrow> env option \<Rightarrow> event list" where
  "gate_events w shouldRun command args d env =
     ConsoleLog (gate_line w shouldRun command args d)
       # (if shouldRun then [ExecuteCommand command args (working_directory w d) False env]
          else [])"

text \<open>
  The line as the specification words it: the action, the command, its arguments and the
  relative working directory in parentheses.
\<close>

definition spec_gate_line :: "bool \<Rightarrow> string \<Rightarrow> string list \<Rightarrow> string \<Rightarrow> string" where
  "spec_gate_line shouldRun command args relativeWorkingDir =
     (if shouldRun then ''EXECUTING'' else ''DRYRUN'') @ '': '' @ command @ '' ''
       @ js_join '' '' args @ '' ('' @ relativeWorkingDir @ '')''"

text \<open>The environment and the arguments \<open>_npmPublish\<close> builds, and those of a tag and a push.\<close>

definition npm_env :: "world \<Rightarrow> env" where
  "npm_env w =
     (if truthy (registryUrl_value w)
      then (process_env w)(''npm_config_registry'' \<mapsto> the (registryUrl_value w))
      else process_env w)"

definition npm_registry :: "world \<Rightarrow> string" where
  "npm_registry w =
     (if truthy (registryUrl_value w)
      then js_substring (the (registryUrl_value w)) (js_indexOf (the (registryUrl_value w)) ''//'')
      else ''//registry.npmjs.org/'')"

definition npm_args :: "world \<Rightarrow> string list" where
  "npm_args w =
     [''publish'']
       @ (if truthy (npmAuthToken_value w)
          then [''--'' @ npm_registry w @ '':_authToken='' @ the (npmAuthToken_value w)] else [])
       @ (if force_value w then [''--force''] else [])"

definition tag_args :: "world \<Rightarrow> string \<Rightarrow> string \<Rightarrow> string list" where
  "tag_args w n v =
     [''tag'', ''-a'', createTagname w n v, ''-m'', [CHR 0x22] @ n @ '' v'' @ v @ [CHR 0x22]]"

definition tag_gate :: "world \<Rightarrow> bool" where
  "tag_gate w =
     (truthy (targetBranch_value w) \<and> publish_value w \<and> \<not> truthy (registryUrl_value w))"

definition push_args :: "string option \<Rightarrow> string list" where
  "push_args b = [''push'', ''origin'', ''HEAD:'' @ toStr b, ''--follow-tags'', ''--verbose'']"

fun is_UpdateChangelogs :: "event \<Rightarrow> bool" where
  "is_UpdateChangelogs (UpdateChangelogs b) = True"
| "is_UpdateChangelogs _ = False"

fun is_DeleteAll :: "event \<Rightarrow> bool" where
  "is_DeleteAll (DeleteAll b) = True"
| "is_DeleteAll _ = False"

fun is_ProcessExit :: "event \<Rightarrow> bool" where
  "is_ProcessExit (ProcessExit c) = True"
| "is_ProcessExit _ = False"

fun is_FindChangeRequests :: "event \<Rightarrow> bool" where
  "is_FindChangeRequests (FindChangeRequests b t) = True"
| "is_FindChangeRequests _ = False"

text \<open>A printed line of the gate that announces a dry run.\<close>

fun is_dryrun_line :: "world \<Rightarrow> event \<Rightarrow> bool" where
  "is_dryrun_line w (ConsoleLog s) = startsWith s (EOL w @ ''* DRYRUN: '')"
| "is_dryrun_line w _ = False"

text \<open>A spawned \<open>git tag\<close> and a spawned \<open>git push\<close>.\<close>

fun is_tag_spawn :: "event \<Rightarrow> bool" where
  "is_tag_spawn (ExecuteCommand c a d s e) = (c = ''git'' \<and> take 1 a = [''tag''])"
| "is_tag_spawn _ = False"

fun is_push_spawn :: "event \<Rightarrow> bool" where
  "is_push_spawn (ExecuteCommand c a d s e) = (c = ''git'' \<and> take 1 a = [''push''])"
| "is_push_spawn _ = False"

text \<open>
  Change resolution yields records of registered projects only: every record that the
  loops look up in the map names one of its keys.
\<close>

definition registered :: "world \<Rightarrow> IChangeInfo \<Rightarrow> bool" where
  "registered w c =
     (ChangeType_value (changeType c) > ChangeType_value dependency \<longrightarrow>
      map_of (projectsByName w) (packageName c) \<noteq> None)"

definition changes_registered :: "world \<Rightarrow> bool" where
  "changes_registered w = list_all (registered w) (sortChangeRequests w)"

text \<open>A record whose change is above dependency and whose project is to be published.\<close>

definition publishable :: "world \<Rightarrow> IChangeInfo \<Rightarrow> bool" where
  "publishable w c =
     (ChangeType_value (changeType c) > ChangeType_value dependency \<and>
      (case map_of (projectsByName w) (packageName c) of
         None \<Rightarrow> False | Some p \<Rightarrow> shouldPublish p))"

text \<open>
  The steps of the selective workflow before the publish loop and after the tag loop, for
  a list of change records that is not empty.
\<close>

definition tempBranch :: "world \<Rightarrow> string" where
  "tempBranch w = ''publish-'' @ string_of_nat (Date_getTime w)"

definition selective_prelude :: "world \<Rightarrow> PrereleaseToken \<Rightarrow> event list" where
  "selective_prelude w tok =
     [FindChangeRequests (addCommitDetails_value w) tok, SortChangeRequests]
       @ trace (gitCheckout w (Some (tempBranch w)) True)
       @ [UpdatePackages (apply_value w) tok]
       @ (if \<not> hasValue tok
          then [UpdateChangelogs (apply_value w),
                DeleteAll (apply_value w \<or> truthy (targetBranch_value w))]
          else [])
       @ trace (gitAddChanges w) @ trace (gitCommit w) @ trace (gitPush w (Some (tempBranch w)))"

definition selective_postlude :: "world \<Rightarrow> event list" where
  "selective_postlude w =
     trace (gitPush w (Some (tempBranch w)))
       @ trace (gitCheckout w (targetBranch_value w) False)
       @ trace (gitPull w)
       @ trace (gitMerge w (tempBranch w))
       @ trace (gitPush w (targetBranch_value w))
       @ trace (gitDeleteBranch w (tempBranch w))"

text \<open>The two loops and the merge into the target branch, as one block.\<close>

definition selective_tail :: "world \<Rightarrow> unit action" where
  "selective_tail w =
     seqs [
       forEach (publishChanges_body w) (sortChangeRequests w),
       gitAddTags w (sortChangeRequests w),
       gitPush w (Some (tempBranch w)),
       gitCheckout w (targetBranch_value w) False,
       gitPull w,
       gitMerge w (tempBranch w),
       gitPush w (targetBranch_value w),
       gitDeleteBranch w (tempBranch w)]"

fun is_PublishedVersions :: "event \<Rightarrow> bool" where
  "is_PublishedVersions (PublishedVersions n f e) = True"
| "is_PublishedVersions _ = False"

text \<open>
  The publish-all workflow as the specification words it. A project needs publishing when
  \<open>--force\<close> is set or its version is not among the versions the registry lists. Every
  project with \<open>shouldPublish\<close> that needs publishing gets the publish step and the tag
  step; the others with \<open>shouldPublish\<close> are skipped with a line. After the scan the
  target branch is pushed if and only if some project was published. The registry is
  asked only when \<open>--force\<close> is not set.
\<close>

definition needs_publish :: "world \<Rightarrow> RushConfigurationProject \<Rightarrow> bool" where
  "needs_publish w p =
     (force_value w \<or>
      packageJson_version p
        \<notin> set (Npm_publishedVersions w (project_packageName p) (projectFolder p) (npm_env w)))"

definition spec_publishAll_project ::
  "world \<Rightarrow> string \<times> RushConfigurationProject \<Rightarrow> event list" where
  "spec_publishAll_project w np =
     (case np of (n, p) \<Rightarrow>
        if shouldPublish p then
          (if force_value w then []
           else [PublishedVersions (project_packageName p) (projectFolder p) (npm_env w)])
          @ (if needs_publish w p
             then gate_events w (publish_value w) (npmToolFilename w) (npm_args w)
                    (Some (projectFolder p)) (Some (npm_env w))
                  @ gate_events w (tag_gate w) ''git'' (tag_args w n (packageJson_version p))
                      None None
             else [ConsoleLog (''Skip '' @ n @ ''. Not updated.'')])
        else [])"

definition published :: "world \<Rightarrow> string \<times> RushConfigurationProject \<Rightarrow> bool" where
  "published w np = (case np of (n, p) \<Rightarrow> shouldPublish p \<and> needs_publish w p)"

definition spec_publishAll :: "world \<Rightarrow> unit action" where
  "spec_publishAll w =
     (concat (map (spec_publishAll_project w) (projectsByName w))
        @ (if list_ex (published w) (projectsByName w)
           then gate_events w (truthy (targetBranch_value w)) ''git''
                  (push_args (targetBranch_value w)) None None
           else []),
      Inr ())"

text \<open>
  A whole run around one workflow: the starting line, the loading of the configuration,
  the policy check, the workflow, the closing line.
\<close>

definition run_with :: "world \<Rightarrow> unit action \<Rightarrow> unit action" where
  "run_with w workflow =
     seqs [
       emit (ConsoleLog (''Starting '' @ [CHR 0x22] @ ''rush publish'' @ [CHR 0x22] @ '' '' @ EOL w)),
       emit LoadFromDefaultLocation,
       emit GitPolicyCheck,
       workflow,
       emit (ConsoleLog (EOL w @ colors_green w ''Rush publish finished successfully.''))]"

definition run_selective :: "world \<Rightarrow> unit action" where
  "run_selective w =
     run_with w (publishChanges w (new_PrereleaseToken (prereleaseName_value w) (suffix_value w)))"

definition run_publishAll :: "world \<Rightarrow> unit action" where
  "run_publishAll w = run_with w (publishAll w)"

section \<open>An example run\<close>

text \<open>
  Two projects and two change records, no flag set: a minor change of a project that is
  published, and a dependency change of one that is not. The relative path stands for
  \<open>path.relative\<close> on the paths of the example: empty for the directory itself, the rest
  of the path for a directory below it.
\<close>

definition example_world :: world where
  "example_world =
     \<lparr>apply_value = False, targetBranch_value = None, publish_value = False,
      addCommitDetails_value = False, regenerateChangelogs_value = False,
      registryUrl_value = None, npmAuthToken_value = None, includeAll_value = False,
      prereleaseName_value = None, suffix_value = None, force_value = False,
      process_env = Map.empty, process_cwd = ''/repo'', EOL = [CHR 0x0A],
      Date_getTime = 1500,
      path_relative = (\<lambda>from to. if from = to then [] else drop (Suc (length from)) to),
      colors_green = (\<lambda>s. s),
      projectsByName =
        [(''pkgA'', \<lparr>project_packageName = ''pkgA'', projectFolder = ''/repo/a'',
                     shouldPublish = True, packageJson_version = ''1.0.0''\<rparr>),
         (''pkgB'', \<lparr>project_packageName = ''pkgB'', projectFolder = ''/repo/b'',
                     shouldPublish = False, packageJson_version = ''1.0.0''\<rparr>)],
      npmToolFilename = ''npm'', GitPolicy_check = True,
      sortChangeRequests =
        [\<lparr>packageName = ''pkgA'', changeType = minor, newVersion = ''1.1.0''\<rparr>,
         \<lparr>packageName = ''pkgB'', changeType = dependency, newVersion = ''1.0.1''\<rparr>],
      Npm_publishedVersions = (\<lambda>n f e. [''1.0.0'']),
      createTagname = (\<lambda>n v. n @ ''_v'' @ v)\<rparr>"

section \<open>Basic facts\<close>

lemma bind_Inr: "bind (t, Inr x) f = (t @ fst (f x), snd (f x))"
  by (simp add: bind_def split: prod.splits)

lemma bind_Inl: "bind (t, Inl e) f = (t, Inl e)"
  by (simp add: bind_def)

lemma execCommand_eq:
  "execCommand w b c a d e = (gate_events w b c a d e, Inr ())"
  by (simp add: execCommand_def gate_events_def gate_line_def working_directory_def Let_def
        bind_def emit_def ret_def)

lemma getEnvArgs_eq: "getEnvArgs w = process_env w"
  by (simp add: getEnvArgs_def)

lemma npmPublish_eq:
  "map_of (projectsByName w) n = Some p \<Longrightarrow>
   npmPublish w n path =
     ((if shouldPublish p
       then gate_events w (publish_value w) (npmToolFilename w) (npm_args w) (Some path)
              (Some (npm_env w))
       else []), Inr ())"
  by (simp add: npmPublish_def execCommand_eq npm_args_def npm_env_def npm_registry_def
        getEnvArgs_eq Let_def ret_def)

lemma npmPublish_missing:
  "map_of (projectsByName w) n = None \<Longrightarrow> npmPublish w n path = ([], Inl TypeError)"
  by (simp add: npmPublish_def throw_def)

lemma gitAddTag_eq:
  "gitAddTag w n v = (gate_events w (tag_gate w) ''git'' (tag_args w n v) None None, Inr ())"
  by (simp add: gitAddTag_def execCommand_eq tag_args_def tag_gate_def Let_def)

lemma gitPush_eq:
  "gitPush w b =
     (gate_events w (truthy (targetBranch_value w)) ''git'' (push_args b) None None, Inr ())"
  by (simp add: gitPush_def execCommand_eq push_args_def)

lemma gitCheckout_eq:
  "gitCheckout w b c =
     (gate_events w (truthy (targetBranch_value w)) ''git''
        (js_split CHR '' '' (''checkout '' @ (if c then ''-b '' else '''') @ toStr b)) None None,
      Inr ())"
  by (simp add: gitCheckout_def execCommand_eq Let_def)

lemma gitMerge_eq:
  "gitMerge w b =
     (gate_events w (truthy (targetBranch_value w)) ''git''
        (js_split CHR '' '' (''merge '' @ b @ '' --no-edit'')) None None, Inr ())"
  by (simp add: gitMerge_def execCommand_eq)

lemma gitDeleteBranch_eq:
  "gitDeleteBranch w b =
     (gate_events w (truthy (targetBranch_value w)) ''git''
        (js_split CHR '' '' (''branch -d '' @ b)) None None
      @ gate_events w (truthy (targetBranch_value w)) ''git''
        (js_split CHR '' '' (''push origin --delete '' @ b)) None None, Inr ())"
  by (simp add: gitDeleteBranch_def execCommand_eq bind_Inr ret_def)

lemma gitPull_eq:
  "gitPull w =
     (gate_events w (truthy (targetBranch_value w)) ''git''
        (js_split CHR '' '' (''pull origin '' @ toStr (targetBranch_value w))) None None, Inr ())"
  by (simp add: gitPull_def execCommand_eq)

lemma gitAddChanges_eq:
  "gitAddChanges w =
     (gate_events w (truthy (targetBranch_value w)) ''git'' [''add'', ''.''] None None, Inr ())"
  by (simp add: gitAddChanges_def execCommand_eq)

lemma gitCommit_eq:
  "gitCommit w =
     (gate_events w (truthy (targetBranch_value w)) ''git''
        [''commit'', ''-m'', [CHR 0x22] @ ''Applying package updates.'' @ [CHR 0x22]] None None,
      Inr ())"
  by (simp add: gitCommit_def execCommand_eq)

lemmas git_eqs = gitCheckout_eq gitMerge_eq gitDeleteBranch_eq gitPull_eq gitAddChanges_eq
  gitCommit_eq gitPush_eq

lemma bind_ok: "snd m = Inr () \<Longrightarrow> bind m f = (fst m @ fst (f ()), snd (f ()))"
  by (cases m) (simp add: bind_Inr)

lemma git_ok:
  "snd (gitCheckout w b c) = Inr ()" "snd (gitMerge w n) = Inr ()"
  "snd (gitDeleteBranch w n) = Inr ()" "snd (gitPull w) = Inr ()"
  "snd (gitAddChanges w) = Inr ()" "snd (gitCommit w) = Inr ()" "snd (gitPush w b) = Inr ()"
  "snd (gitAddTag w n v) = Inr ()"
  by (simp_all add: git_eqs gitAddTag_eq)

lemma emit_ok: "snd (emit e) = Inr ()" "fst (emit e) = [e]"
  by (simp_all add: emit_def)

lemma ret_ok: "snd (ret x) = Inr x" "fst (ret x) = []"
  by (simp_all add: ret_def)

lemma forEach_ok:
  "(\<And>x. x \<in> set xs \<Longrightarrow> snd (f x) = Inr ()) \<Longrightarrow>
   forEach f xs = (concat (map (\<lambda>x. fst (f x)) xs), Inr ())"
proof (induction xs)
  case Nil
  then show ?case by (simp add: ret_def)
next
  case (Cons x xs)
  have "snd (f x) = Inr ()" using Cons.prems [of x] by simp
  moreover have "forEach f xs = (concat (map (\<lambda>x. fst (f x)) xs), Inr ())"
    using Cons by simp
  ultimately show ?case by (simp add: bind_ok)
qed

lemma seqs_ok:
  "list_all (\<lambda>m. snd m = Inr ()) ms \<Longrightarrow> seqs ms = (concat (map fst ms), Inr ())"
  by (induction ms) (simp_all add: ret_def bind_ok)

lemma publishChanges_body_unregistered:
  "ChangeType_value (changeType c) > ChangeType_value dependency \<Longrightarrow>
   map_of (projectsByName w) (packageName c) = None \<Longrightarrow>
   publishChanges_body w c = ([], Inl TypeError)"
  by (simp add: publishChanges_body_def throw_def)

lemma publishChanges_body_ok:
  "registered w c \<Longrightarrow> snd (publishChanges_body w c) = Inr ()"
  by (auto simp: registered_def publishChanges_body_def npmPublish_eq ret_def)

lemma gitAddTags_body_ok:
  "registered w c \<Longrightarrow> snd (gitAddTags_body w c) = Inr ()"
  by (auto simp: registered_def gitAddTags_body_def gitAddTag_eq ret_def)

lemma publishChanges_eq:
  assumes "changes_registered w" and "sortChangeRequests w \<noteq> []"
  shows "publishChanges w tok =
     (selective_prelude w tok
        @ concat (map (\<lambda>c. trace (publishChanges_body w c)) (sortChangeRequests w))
        @ concat (map (\<lambda>c. trace (gitAddTags_body w c)) (sortChangeRequests w))
        @ selective_postlude w, Inr ())"
proof -
  have reg: "\<And>c. c \<in> set (sortChangeRequests w) \<Longrightarrow> registered w c"
    using assms(1) by (simp add: changes_registered_def list_all_iff)
  have loop1: "forEach (publishChanges_body w) (sortChangeRequests w) =
      (concat (map (\<lambda>c. fst (publishChanges_body w c)) (sortChangeRequests w)), Inr ())"
    by (rule forEach_ok) (simp add: reg publishChanges_body_ok)
  have loop2: "gitAddTags w (sortChangeRequests w) =
      (concat (map (\<lambda>c. fst (gitAddTags_body w c)) (sortChangeRequests w)), Inr ())"
    unfolding gitAddTags_def by (rule forEach_ok) (simp add: reg gitAddTags_body_ok)
  have inner: "seqs [emit (UpdateChangelogs (apply_value w)),
                     emit (DeleteAll (apply_value w \<or> truthy (targetBranch_value w)))] =
               ([UpdateChangelogs (apply_value w),
                 DeleteAll (apply_value w \<or> truthy (targetBranch_value w))], Inr ())"
    by (simp add: emit_def bind_Inr ret_def)
  have body: "seqs [
                    gitCheckout w (Some (tempBranch w)) True,
                    emit (UpdatePackages (apply_value w) tok),
                    (if \<not> hasValue tok then
                       seqs [
                         emit (UpdateChangelogs (apply_value w)),
                         emit (DeleteAll (apply_value w \<or> truthy (targetBranch_value w)))]
                     else ret ()),
                    gitAddChanges w,
                    gitCommit w,
                    gitPush w (Some (tempBranch w)),
                    forEach (publishChanges_body w) (sortChangeRequests w),
                    gitAddTags w (sortChangeRequests w),
                    gitPush w (Some (tempBranch w)),
                    gitCheckout w (targetBranch_value w) False,
                    gitPull w,
                    gitMerge w (tempBranch w),
                    gitPush w (targetBranch_value w),
                    gitDeleteBranch w (tempBranch w)] = 
     (drop 2 (selective_prelude w tok)
        @ concat (map (\<lambda>c. trace (publishChanges_body w c)) (sortChangeRequests w))
        @ concat (map (\<lambda>c. trace (gitAddTags_body w c)) (sortChangeRequests w))
        @ selective_postlude w, Inr ())"
    apply (subst seqs_ok)
     apply (simp add: loop1 loop2 inner git_ok emit_ok ret_ok del: seqs.simps)
    apply (simp add: loop1 loop2 inner git_ok emit_ok ret_ok
          selective_prelude_def selective_postlude_def trace_def del: seqs.simps)
    done
  have outer: "publishChanges w tok =
      seqs [emit (FindChangeRequests (addCommitDetails_value w) tok), emit SortChangeRequests,
        seqs [
                    gitCheckout w (Some (tempBranch w)) True,
                    emit (UpdatePackages (apply_value w) tok),
                    (if \<not> hasValue tok then
                       seqs [
                         emit (UpdateChangelogs (apply_value w)),
                         emit (DeleteAll (apply_value w \<or> truthy (targetBranch_value w)))]
                     else ret ()),
                    gitAddChanges w,
                    gitCommit w,
                    gitPush w (Some (tempBranch w)),
                    forEach (publishChanges_body w) (sortChangeRequests w),
                    gitAddTags w (sortChangeRequests w),
                    gitPush w (Some (tempBranch w)),
                    gitCheckout w (targetBranch_value w) False,
                    gitPull w,
                    gitMerge w (tempBranch w),
                    gitPush w (targetBranch_value w),
                    gitDeleteBranch w (tempBranch w)]]"
    using assms(2) by (simp add: publishChanges_def Let_def tempBranch_def del: seqs.simps)
  show ?thesis
    unfolding outer body
    by (simp add: emit_def bind_Inr ret_def selective_prelude_def)
qed

lemma all_bind:
  assumes "\<forall>e\<in>set (fst m). P e" and "\<And>x. \<forall>e\<in>set (fst (f x)). P e"
  shows "\<forall>e\<in>set (fst (bind m f)). P e"
proof (cases m)
  case (Pair t r)
  show ?thesis
  proof (cases r)
    case (Inl err)
    with Pair assms(1) show ?thesis by (simp add: bind_Inl)
  next
    case (Inr x)
    with Pair assms(1) assms(2) [of x] show ?thesis by (auto simp: bind_Inr)
  qed
qed

lemma all_forEach:
  "\<forall>x\<in>set xs. \<forall>e\<in>set (fst (f x)). P e \<Longrightarrow> \<forall>e\<in>set (fst (forEach f xs)). P e"
proof (induction xs)
  case Nil
  then show ?case by (simp add: ret_def)
next
  case (Cons x xs)
  have head: "\<forall>e\<in>set (fst (f x)). P e" using Cons.prems by simp
  have rest: "\<forall>e\<in>set (fst (forEach f xs)). P e" using Cons.IH Cons.prems by simp
  show ?case
    unfolding forEach.simps using head rest by (rule all_bind)
qed

lemma all_seqs:
  "\<forall>m\<in>set ms. \<forall>e\<in>set (fst m). P e \<Longrightarrow> \<forall>e\<in>set (fst (seqs ms)). P e"
proof (induction ms)
  case Nil
  then show ?case by (simp add: ret_def)
next
  case (Cons m ms)
  have head: "\<forall>e\<in>set (fst m). P e" using Cons.prems by simp
  have rest: "\<forall>e\<in>set (fst (seqs ms)). P e" using Cons.IH Cons.prems by simp
  show ?case
    unfolding seqs.simps using head rest by (rule all_bind)
qed

lemma seqs_append: "seqs (ms @ ns) = bind (seqs ms) (\<lambda>_. seqs ns)"
proof (induction ms)
  case Nil
  then show ?case by (simp add: ret_def bind_Inr)
next
  case (Cons m ms)
  then show ?case
    by (cases m) (auto simp: bind_def split: sum.splits prod.splits)
qed

lemma gate_events_dry:
  "\<not> b \<Longrightarrow> gate_events w b c a d e = [ConsoleLog (gate_line w False c a d)]"
  by (simp add: gate_events_def)

lemma gate_events_logs: "length (filter is_ConsoleLog (gate_events w b c a d e)) = 1"
  by (simp add: gate_events_def)

lemma publishChanges_body_events:
  "fst (publishChanges_body w c) = [] \<or>
   fst (publishChanges_body w c) =
     gate_events w (publish_value w) (npmToolFilename w) (npm_args w)
       (Some (projectFolder (the (map_of (projectsByName w) (packageName c))))) (Some (npm_env w))"
  by (auto simp: publishChanges_body_def npmPublish_eq ret_def throw_def split: option.splits)

lemma gitAddTags_body_events:
  "fst (gitAddTags_body w c) = [] \<or>
   fst (gitAddTags_body w c) =
     gate_events w (tag_gate w) ''git'' (tag_args w (packageName c) (newVersion c)) None None"
  by (auto simp: gitAddTags_body_def gitAddTag_eq ret_def throw_def split: option.splits)

lemma publishChanges_body_publishable:
  "registered w c \<Longrightarrow>
   fst (publishChanges_body w c) =
     (if publishable w c
      then gate_events w (publish_value w) (npmToolFilename w) (npm_args w)
        (Some (projectFolder (the (map_of (projectsByName w) (packageName c))))) (Some (npm_env w))
      else [])"
  by (auto simp: publishChanges_body_def npmPublish_eq ret_def registered_def publishable_def
        split: option.splits)

lemma gitAddTags_body_publishable:
  "registered w c \<Longrightarrow>
   fst (gitAddTags_body w c) =
     (if publishable w c
      then gate_events w (tag_gate w) ''git'' (tag_args w (packageName c) (newVersion c)) None None
      else [])"
  by (auto simp: gitAddTags_body_def gitAddTag_eq ret_def registered_def publishable_def
        split: option.splits)

lemma count_concat:
  "(\<And>x. x \<in> set xs \<Longrightarrow> length (filter P (f x)) = (if Q x then 1 else 0)) \<Longrightarrow>
   length (filter P (concat (map f xs))) = length (filter Q xs)"
  by (induction xs) auto

lemma prelude_logs: "length (filter is_ConsoleLog (selective_prelude w tok)) = 4"
  by (simp add: selective_prelude_def trace_def git_eqs gate_events_logs)

lemma postlude_logs: "length (filter is_ConsoleLog (selective_postlude w)) = 7"
  by (simp add: selective_postlude_def trace_def git_eqs gate_events_logs)

lemma selective_logs:
  assumes "changes_registered w" and "sortChangeRequests w \<noteq> []"
  shows "length (filter is_ConsoleLog (trace (publishChanges w tok))) =
           11 + 2 * length (filter (publishable w) (sortChangeRequests w))"
proof -
  have reg: "\<And>c. c \<in> set (sortChangeRequests w) \<Longrightarrow> registered w c"
    using assms(1) by (simp add: changes_registered_def list_all_iff)
  have p: "length (filter is_ConsoleLog
             (concat (map (\<lambda>c. trace (publishChanges_body w c)) (sortChangeRequests w)))) =
           length (filter (publishable w) (sortChangeRequests w))"
    by (rule count_concat)
       (simp add: trace_def publishChanges_body_publishable reg gate_events_logs)
  have t: "length (filter is_ConsoleLog
             (concat (map (\<lambda>c. trace (gitAddTags_body w c)) (sortChangeRequests w)))) =
           length (filter (publishable w) (sortChangeRequests w))"
    by (rule count_concat)
       (simp add: trace_def gitAddTags_body_publishable reg gate_events_logs)
  show ?thesis
    by (simp add: publishChanges_eq [OF assms] trace_def prelude_logs postlude_logs)
       (simp add: p [unfolded trace_def] t [unfolded trace_def])
qed

lemma bind_unit: "bind m (\<lambda>_. ([], Inr ())) = (m :: unit action)"
proof (cases m)
  case (Pair t r)
  then show ?thesis by (cases r) (simp_all add: bind_Inl bind_Inr)
qed

lemma publishChanges_split:
  assumes "sortChangeRequests w \<noteq> []"
  shows "publishChanges w tok =
           (selective_prelude w tok @ fst (selective_tail w), snd (selective_tail w))"
proof -
  have inner: "seqs [emit (UpdateChangelogs (apply_value w)),
                     emit (DeleteAll (apply_value w \<or> truthy (targetBranch_value w)))] =
               ([UpdateChangelogs (apply_value w),
                 DeleteAll (apply_value w \<or> truthy (targetBranch_value w))], Inr ())"
    by (simp add: emit_def bind_Inr ret_def)
  have first: "seqs [
      gitCheckout w (Some (tempBranch w)) True,
      emit (UpdatePackages (apply_value w) tok),
      (if \<not> hasValue tok then
         seqs [emit (UpdateChangelogs (apply_value w)),
               emit (DeleteAll (apply_value w \<or> truthy (targetBranch_value w)))]
       else ret ()),
      gitAddChanges w, gitCommit w, gitPush w (Some (tempBranch w))] =
    (drop 2 (selective_prelude w tok), Inr ())"
    apply (subst seqs_ok)
     apply (simp add: inner git_ok emit_ok ret_ok del: seqs.simps)
    apply (simp add: inner git_ok emit_ok ret_ok selective_prelude_def trace_def
        del: seqs.simps)
    done
  have outer: "publishChanges w tok =
      seqs [emit (FindChangeRequests (addCommitDetails_value w) tok), emit SortChangeRequests,
        seqs ([
          gitCheckout w (Some (tempBranch w)) True,
          emit (UpdatePackages (apply_value w) tok),
          (if \<not> hasValue tok then
             seqs [emit (UpdateChangelogs (apply_value w)),
                   emit (DeleteAll (apply_value w \<or> truthy (targetBranch_value w)))]
           else ret ()),
          gitAddChanges w, gitCommit w, gitPush w (Some (tempBranch w))]
         @ [forEach (publishChanges_body w) (sortChangeRequests w),
            gitAddTags w (sortChangeRequests w),
            gitPush w (Some (tempBranch w)),
            gitCheckout w (targetBranch_value w) False,
            gitPull w,
            gitMerge w (tempBranch w),
            gitPush w (targetBranch_value w),
            gitDeleteBranch w (tempBranch w)])]"
    using assms by (simp add: publishChanges_def Let_def tempBranch_def del: seqs.simps)
  show ?thesis
    unfolding outer seqs_append first selective_tail_def [symmetric]
    by (simp add: emit_def bind_Inr ret_def selective_prelude_def bind_unit)
qed

lemma publishChanges_none:
  "sortChangeRequests w = [] \<Longrightarrow>
   publishChanges w tok =
     ([FindChangeRequests (addCommitDetails_value w) tok, SortChangeRequests], Inr ())"
  by (simp add: publishChanges_def emit_def bind_Inr ret_def)

lemma tail_events:
  assumes "\<And>b c a d en. b \<longrightarrow> truthy (targetBranch_value w) \<or> publish_value w \<Longrightarrow>
             \<forall>e\<in>set (gate_events w b c a d en). P e"
  shows "\<forall>e\<in>set (fst (selective_tail w)). P e"
proof -
  have g: "\<And>c a d en. \<forall>e\<in>set (gate_events w (truthy (targetBranch_value w)) c a d en). P e"
    by (rule assms) simp
  have p: "\<And>c a d en. \<forall>e\<in>set (gate_events w (publish_value w) c a d en). P e"
    by (rule assms) simp
  have t: "\<And>c a d en. \<forall>e\<in>set (gate_events w (tag_gate w) c a d en). P e"
    by (rule assms) (simp add: tag_gate_def)
  have loop1: "\<forall>e\<in>set (fst (forEach (publishChanges_body w) (sortChangeRequests w))). P e"
  proof (rule all_forEach, rule ballI)
    fix c
    show "\<forall>e\<in>set (fst (publishChanges_body w c)). P e"
      using publishChanges_body_events [of w c] p by auto
  qed
  have loop2: "\<forall>e\<in>set (fst (gitAddTags w (sortChangeRequests w))). P e"
    unfolding gitAddTags_def
  proof (rule all_forEach, rule ballI)
    fix c
    show "\<forall>e\<in>set (fst (gitAddTags_body w c)). P e"
      using gitAddTags_body_events [of w c] t by auto
  qed
  show ?thesis
    unfolding selective_tail_def
    by (rule all_seqs) (simp add: loop1 loop2 git_eqs g ball_Un)
qed

lemma gate_line_startsWith: "startsWith (gate_line w False c a d) (EOL w @ ''* DRYRUN: '')"
  by (simp add: gate_line_def startsWith_def)

lemma filter_none: "\<forall>e\<in>set xs. \<not> Q e \<Longrightarrow> filter Q xs = []"
  by (induction xs) auto

lemma gate_events_no_changelog:
  "filter (\<lambda>e. is_UpdateChangelogs e \<or> is_DeleteAll e) (gate_events w b c a d en) = []"
  by (simp add: gate_events_def)

lemma array_indexOf_lower: "array_indexOf xs v \<ge> - 1"
  by (induction xs) (auto simp: Let_def)

lemma array_indexOf_mem: "(array_indexOf xs v \<ge> 0) = (v \<in> set xs)"
  using array_indexOf_lower [of _ v] by (induction xs) (auto simp: Let_def)

lemma packageExists_eq:
  "packageExists w p =
     ([PublishedVersions (project_packageName p) (projectFolder p) (npm_env w)],
      Inr (packageJson_version p
             \<in> set (Npm_publishedVersions w (project_packageName p) (projectFolder p) (npm_env w))))"
  by (simp add: packageExists_def getEnvArgs_eq Let_def emit_def ret_def bind_Inr
        array_indexOf_mem npm_env_def)

lemma spec_publishAll_project_pair:
  "spec_publishAll_project w (n, p) =
     (if shouldPublish p then
        (if force_value w then []
         else [PublishedVersions (project_packageName p) (projectFolder p) (npm_env w)])
        @ (if needs_publish w p
           then gate_events w (publish_value w) (npmToolFilename w) (npm_args w)
                  (Some (projectFolder p)) (Some (npm_env w))
                @ gate_events w (tag_gate w) ''git'' (tag_args w n (packageJson_version p))
                    None None
           else [ConsoleLog (''Skip '' @ n @ ''. Not updated.'')])
      else [])"
  by (simp add: spec_publishAll_project_def)

lemma published_pair: "published w (n, p) = (shouldPublish p \<and> needs_publish w p)"
  by (simp add: published_def)

lemma publishAll_forEach_eq:
  "\<forall>np\<in>set ps. map_of (projectsByName w) (fst np) = Some (snd np) \<Longrightarrow>
   publishAll_forEach w ps u =
     (concat (map (spec_publishAll_project w) ps), Inr (u \<or> list_ex (published w) ps))"
proof (induction ps arbitrary: u)
  case Nil
  then show ?case by (simp add: ret_def)
next
  case (Cons np ps)
  obtain n p where np: "np = (n, p)" by (cases np)
  have look: "map_of (projectsByName w) n = Some p" using Cons.prems np by simp
  have rest: "\<And>u'. publishAll_forEach w ps u' =
      (concat (map (spec_publishAll_project w) ps), Inr (u' \<or> list_ex (published w) ps))"
    using Cons by simp
  show ?case
    unfolding np publishAll_forEach.simps
    by (simp add: rest packageExists_eq npmPublish_eq [OF look] gitAddTag_eq bind_Inr ret_def
          emit_def spec_publishAll_project_pair published_pair needs_publish_def)
qed

lemma distinct_lookup:
  "distinct (map fst ps) \<Longrightarrow> \<forall>np\<in>set ps. map_of ps (fst np) = Some (snd np)"
  by (auto simp: map_of_eq_Some_iff)

lemma publishAll_eq:
  "distinct (map fst (projectsByName w)) \<Longrightarrow> publishAll w = spec_publishAll w"
  by (simp add: publishAll_def publishAll_forEach_eq [OF distinct_lookup] bind_Inr gitPush_eq
        ret_def spec_publishAll_def)

lemma project_events_gated:
  "\<forall>e\<in>set (spec_publishAll_project w np).
     (is_tag_spawn e \<longrightarrow>
        truthy (targetBranch_value w) \<and> publish_value w \<and> \<not> truthy (registryUrl_value w))
     \<and> (is_push_spawn e \<longrightarrow> truthy (targetBranch_value w))"
  by (cases np)
     (auto simp: spec_publishAll_project_pair gate_events_def npm_args_def tag_args_def
        tag_gate_def split: if_splits)

lemma bind_assoc: "bind (bind m f) g = bind m (\<lambda>x. bind (f x) g)"
proof (cases m)
  case (Pair t r)
  show ?thesis
  proof (cases r)
    case (Inl e)
    with Pair show ?thesis by (simp add: bind_Inl)
  next
    case (Inr x)
    obtain t' r' where fx: "f x = (t', r')" by (cases "f x")
    show ?thesis
    proof (cases r')
      case (Inl e)
      with Pair Inr fx show ?thesis by (simp add: bind_Inl bind_Inr)
    next
      case (Inr y)
      with Pair \<open>r = Inr x\<close> fx show ?thesis by (simp add: bind_Inr)
    qed
  qed
qed

lemma npmPublish_events:
  "\<forall>e\<in>set (fst (npmPublish w n path)). is_ConsoleLog e \<or> is_ExecuteCommand e"
proof (cases "map_of (projectsByName w) n")
  case None
  then show ?thesis by (simp add: npmPublish_missing)
next
  case (Some p)
  then show ?thesis by (auto simp: npmPublish_eq gate_events_def)
qed

lemma publishAll_forEach_events:
  "\<forall>e\<in>set (fst (publishAll_forEach w ps u)).
     is_ConsoleLog e \<or> is_ExecuteCommand e \<or> is_PublishedVersions e"
proof (induction ps arbitrary: u)
  case Nil
  then show ?case by (simp add: ret_def)
next
  case (Cons np ps)
  let ?K = "\<lambda>e. is_ConsoleLog e \<or> is_ExecuteCommand e \<or> is_PublishedVersions e"
  obtain n p where np: "np = (n, p)" by (cases np)
  have g: "\<forall>e\<in>set (fst (gitAddTag w n v)). ?K e" for v
    by (auto simp: gitAddTag_eq gate_events_def)
  have q: "\<forall>e\<in>set (fst (npmPublish w n path)). ?K e" for path
    using npmPublish_events [of w n path] by auto
  have pub: "\<forall>e\<in>set (fst (bind (npmPublish w n (projectFolder p))
                 (\<lambda>_. bind (gitAddTag w n (packageJson_version p)) (\<lambda>_. ret True)))). ?K e"
    apply (rule all_bind)
     apply (rule q)
    apply (rule all_bind)
     apply (rule g)
    apply (simp add: ret_def)
    done
  have skip: "\<forall>e\<in>set (fst (bind (emit (ConsoleLog (''Skip '' @ n @ ''. Not updated.'')))
                 (\<lambda>_. ret u))). ?K e"
    by (simp add: emit_def ret_def bind_Inr)
  have cond: "\<forall>e\<in>set (fst (if force_value w then ret True
                else bind (packageExists w p) (\<lambda>ex. ret (\<not> ex)))). ?K e"
    by (simp add: packageExists_eq ret_def bind_Inr)
  have head: "\<forall>e\<in>set (fst (if shouldPublish p then
          bind (if force_value w then ret True
                else bind (packageExists w p) (\<lambda>ex. ret (\<not> ex)))
            (\<lambda>cond.
               if cond then
                 bind (npmPublish w n (projectFolder p))
                   (\<lambda>_. bind (gitAddTag w n (packageJson_version p))
                     (\<lambda>_. ret True))
               else
                 bind (emit (ConsoleLog (''Skip '' @ n @ ''. Not updated.'')))
                   (\<lambda>_. ret u))
        else ret u)). ?K e"
  proof (cases "shouldPublish p")
    case True
    show ?thesis
      unfolding if_P [OF True]
      apply (rule all_bind)
       apply (rule cond)
      using pub skip apply simp
      done
  next
    case False
    then show ?thesis by (simp add: ret_def)
  qed
  show ?case
    unfolding np publishAll_forEach.simps
    using head Cons.IH by (rule all_bind)
qed

lemma publishAll_events:
  "\<forall>e\<in>set (fst (publishAll w)).
     is_ConsoleLog e \<or> is_ExecuteCommand e \<or> is_PublishedVersions e"
  unfolding publishAll_def
  by (intro all_bind publishAll_forEach_events allI)
     (auto simp: gitPush_eq ret_def gate_events_def)

lemma fst_bind_prefix: "\<exists>r. fst (bind m f) = fst m @ r"
proof (cases m)
  case (Pair t r)
  then show ?thesis by (cases r) (simp_all add: bind_Inl bind_Inr)
qed

lemma publishChanges_starts:
  "\<exists>r. fst (publishChanges w tok) =
         FindChangeRequests (addCommitDetails_value w) tok # r"
proof (cases "sortChangeRequests w = []")
  case True
  then show ?thesis by (simp add: publishChanges_none)
next
  case False
  then show ?thesis by (simp add: publishChanges_split selective_prelude_def)
qed

lemma publishChanges_no_exit:
  "\<forall>e\<in>set (fst (publishChanges w tok)). \<not> is_ProcessExit e"
proof (cases "sortChangeRequests w = []")
  case True
  then show ?thesis by (simp add: publishChanges_none)
next
  case False
  have tail: "\<forall>e\<in>set (fst (selective_tail w)). \<not> is_ProcessExit e"
    by (rule tail_events) (simp add: gate_events_def)
  have pre: "\<forall>e\<in>set (selective_prelude w tok). \<not> is_ProcessExit e"
    by (auto simp: selective_prelude_def trace_def git_eqs gate_events_def)
  show ?thesis
    using pre tail by (simp add: publishChanges_split [OF False] ball_Un)
qed

lemma run_with_events:
  assumes "\<forall>e\<in>set (fst m). P e" and "\<And>s. P (ConsoleLog s)" and "P LoadFromDefaultLocation"
    and "P GitPolicyCheck"
  shows "\<forall>e\<in>set (fst (run_with w m)). P e"
  unfolding run_with_def
  by (rule all_seqs) (simp add: assms emit_def)

lemma run_with_starts:
  "\<exists>r. fst (run_with w m) =
     [ConsoleLog (''Starting '' @ [CHR 0x22] @ ''rush publish'' @ [CHR 0x22] @ '' '' @ EOL w),
      LoadFromDefaultLocation, GitPolicyCheck] @ fst m @ r"
proof -
  obtain r where "fst (bind m (\<lambda>_. seqs [emit (ConsoleLog
      (EOL w @ colors_green w ''Rush publish finished successfully.''))])) = fst m @ r"
    using fst_bind_prefix by blast
  then show ?thesis
    by (simp add: run_with_def emit_def bind_Inr)
qed

lemma onExecute_selective:
  "GitPolicy_check w \<Longrightarrow> \<not> regenerateChangelogs_value w \<Longrightarrow>
   \<not> (includeAll_value w \<and> publish_value w) \<Longrightarrow> onExecute w = run_selective w"
  by (auto simp: onExecute_def run_selective_def run_with_def bind_assoc bind_unit ret_def)

lemma onExecute_publishAll:
  "GitPolicy_check w \<Longrightarrow> \<not> regenerateChangelogs_value w \<Longrightarrow>
   includeAll_value w \<and> publish_value w \<Longrightarrow> onExecute w = run_publishAll w"
  by (auto simp: onExecute_def run_publishAll_def run_with_def bind_assoc bind_unit ret_def)

lemma onExecute_regenerate:
  "GitPolicy_check w \<Longrightarrow> regenerateChangelogs_value w \<Longrightarrow>
   RegenerateChangelogs \<in> set (fst (onExecute w))"
  by (simp add: onExecute_def emit_def bind_Inr ret_def)

lemma kind_not_resolution:
  "is_ConsoleLog e \<or> is_ExecuteCommand e \<or> is_PublishedVersions e \<Longrightarrow>
   \<not> is_FindChangeRequests e \<and> e \<noteq> RegenerateChangelogs"
  by (cases e) auto

lemma run_publishAll_events:
  "\<forall>e\<in>set (fst (run_publishAll w)). \<not> is_FindChangeRequests e \<and> e \<noteq> RegenerateChangelogs"
  unfolding run_publishAll_def
  by (rule run_with_events) (use publishAll_events [of w] kind_not_resolution in auto)

lemma spec_publishAll_project_explicit:
  "spec_publishAll_project w =
     (\<lambda>np.
        if shouldPublish (snd np) then
          (if force_value w then []
           else [PublishedVersions (project_packageName (snd np)) (projectFolder (snd np))
                   (npm_env w)])
          @ (if needs_publish w (snd np) then
               [ConsoleLog (gate_line w (publish_value w) (npmToolFilename w) (npm_args w)
                              (Some (projectFolder (snd np))))]
               @ (if publish_value w
                  then [ExecuteCommand (npmToolFilename w) (npm_args w)
                          (projectFolder (snd np)) False (Some (npm_env w))]
                  else [])
               @ [ConsoleLog (gate_line w
                     (truthy (targetBranch_value w) \<and> publish_value w
                        \<and> \<not> truthy (registryUrl_value w))
                     ''git'' (tag_args w (fst np) (packageJson_version (snd np))) None)]
               @ (if truthy (targetBranch_value w) \<and> publish_value w
                       \<and> \<not> truthy (registryUrl_value w)
                  then [ExecuteCommand ''git''
                          (tag_args w (fst np) (packageJson_version (snd np)))
                          (process_cwd w) False None]
                  else [])
             else [ConsoleLog (''Skip '' @ fst np @ ''. Not updated.'')])
        else [])"
  by (rule ext)
     (simp add: spec_publishAll_project_def gate_events_def tag_gate_def working_directory_def
        split: prod.splits)

lemma project_spawns:
  "filter is_ExecuteCommand (spec_publishAll_project w np) =
     (if published w np
      then (if publish_value w
            then [ExecuteCommand (npmToolFilename w) (npm_args w) (projectFolder (snd np))
                    False (Some (npm_env w))]
            else [])
           @ (if truthy (targetBranch_value w) \<and> publish_value w
                   \<and> \<not> truthy (registryUrl_value w)
              then [ExecuteCommand ''git'' (tag_args w (fst np) (packageJson_version (snd np)))
                      (process_cwd w) False None]
              else [])
      else [])"
  by (cases np)
     (simp add: spec_publishAll_project_pair published_pair gate_events_def tag_gate_def
        working_directory_def)

lemma projects_spawns:
  "filter is_ExecuteCommand (concat (map (spec_publishAll_project w) ps)) =
     concat (map (\<lambda>np.
          (if publish_value w
           then [ExecuteCommand (npmToolFilename w) (npm_args w) (projectFolder (snd np))
                   False (Some (npm_env w))]
           else [])
          @ (if truthy (targetBranch_value w) \<and> publish_value w
                  \<and> \<not> truthy (registryUrl_value w)
             then [ExecuteCommand ''git'' (tag_args w (fst np) (packageJson_version (snd np)))
                     (process_cwd w) False None]
             else []))
        (filter (published w) ps))"
  by (induction ps) (simp_all add: project_spawns)

lemma project_lines:
  "published w np \<Longrightarrow>
   ConsoleLog (gate_line w (publish_value w) (npmToolFilename w) (npm_args w)
                 (Some (projectFolder (snd np))))
     \<in> set (spec_publishAll_project w np)
   \<and> ConsoleLog (gate_line w
         (truthy (targetBranch_value w) \<and> publish_value w \<and> \<not> truthy (registryUrl_value w))
         ''git'' (tag_args w (fst np) (packageJson_version (snd np))) None)
     \<in> set (spec_publishAll_project w np)"
  by (cases np)
     (simp add: spec_publishAll_project_pair published_pair gate_events_def tag_gate_def)

lemma concat_singletons: "concat (map (\<lambda>x. [f x]) xs) = map f xs"
  by (induction xs) simp_all

lemma concat_empties: "concat (map (\<lambda>x. []) xs) = []"
  by (induction xs) simp_all

section \<open>The command gate prints always and spawns on demand\<close>

text \<open>
  Claim C3, as the code has it. Every call of the gate \<open>_execCommand\<close> prints exactly one
  message and returns: the end of line, a bullet, \<open>EXECUTING\<close> when \<open>shouldRun\<close> is true
  and \<open>DRYRUN\<close> otherwise, then the command, the arguments joined by spaces, and the
  working directory relative to the current one, in parentheses when it is not empty and
  left out when it is empty. The process is spawned, in the given working directory
  (the current one by default), if and only if \<open>shouldRun\<close> is true, and after the
  message.
\<close>

theorem execCommand_prints_then_spawns:
  "execCommand w shouldRun command args d env =
     (ConsoleLog
        (EOL w @ ''* '' @ (if shouldRun then ''EXECUTING'' else ''DRYRUN'') @ '': '' @ command
           @ '' '' @ js_join '' '' args @ '' ''
           @ (if path_relative w (process_cwd w) (working_directory w d) = [] then []
              else ''('' @ path_relative w (process_cwd w) (working_directory w d) @ '')''))
      # (if shouldRun then [ExecuteCommand command args (working_directory w d) False env]
         else []),
      Inr ())"
  by (simp add: execCommand_eq gate_events_def gate_line_def)

text \<open>
  Claim C3, as the specification words it, fails where the working directory is the
  current one, which is the case of every git command: the relative directory is empty,
  and the message of \<open>git add .\<close> ends after the arguments, with no parentheses.
\<close>

theorem execCommand_empty_directory:
  "execCommand example_world True ''git'' [''add'', ''.''] None None =
     ([ConsoleLog ([CHR 0x0A] @ ''* EXECUTING: git add . ''),
       ExecuteCommand ''git'' [''add'', ''.''] ''/repo'' False None], Inr ())
   \<and> path_relative example_world (process_cwd example_world)
        (working_directory example_world None) = []
   \<and> \<not> endsWith ([CHR 0x0A] @ ''* EXECUTING: git add . '')
          (spec_gate_line True ''git'' [''add'', ''.''] [])"
  by (simp add: execCommand_eq gate_events_def gate_line_def working_directory_def
        example_world_def spec_gate_line_def endsWith_def)

section \<open>A failed policy check ends the run\<close>

text \<open>
  Claim C7. When the git policy check fails, the run is: the starting line, the loading
  of the configuration, the check, and the exit with code 1. Nothing follows the exit: no
  change resolution, no file mutation, no gate call and no registry call.
\<close>

theorem policy_failure_exits:
  "\<not> GitPolicy_check w \<Longrightarrow>
   onExecute w =
     ([ConsoleLog (''Starting '' @ [CHR 0x22] @ ''rush publish'' @ [CHR 0x22] @ '' '' @ EOL w),
       LoadFromDefaultLocation, GitPolicyCheck, ProcessExit 1], Inr ())"
  by (simp add: onExecute_def emit_def bind_Inr ret_def)

theorem policy_failure_exits_witness:
  "\<not> GitPolicy_check (example_world\<lparr>GitPolicy_check := False\<rparr>)
   \<and> trace (onExecute (example_world\<lparr>GitPolicy_check := False\<rparr>)) =
       [ConsoleLog (''Starting '' @ [CHR 0x22] @ ''rush publish'' @ [CHR 0x22] @ '' ''
          @ [CHR 0x0A]),
        LoadFromDefaultLocation, GitPolicyCheck, ProcessExit 1]"
  using policy_failure_exits [of "example_world\<lparr>GitPolicy_check := False\<rparr>"]
  by (simp add: example_world_def trace_def)

section \<open>The registry probe\<close>

text \<open>
  Claim C8. \<open>_packageExists\<close> asks the registry client once, for the package's name and
  folder, and answers whether the version of the project's package.json is among the
  versions returned. The environment of that call is the process environment, with the
  one variable \<open>npm_config_registry\<close> set to the registry URL when one is given.
\<close>

theorem packageExists_membership:
  "packageExists w packageConfig =
     ([PublishedVersions (project_packageName packageConfig) (projectFolder packageConfig)
         (if truthy (registryUrl_value w)
          then (process_env w)(''npm_config_registry'' \<mapsto> the (registryUrl_value w))
          else process_env w)],
      Inr (packageJson_version packageConfig
             \<in> set (Npm_publishedVersions w (project_packageName packageConfig)
                      (projectFolder packageConfig)
                      (if truthy (registryUrl_value w)
                       then (process_env w)(''npm_config_registry'' \<mapsto> the (registryUrl_value w))
                       else process_env w))))"
  by (simp add: packageExists_def getEnvArgs_eq Let_def emit_def ret_def bind_Inr
        array_indexOf_mem)

section \<open>No change records, no commands\<close>

text \<open>
  Claim C4. When the ordered list of change records is empty, the selective workflow
  consists of the change resolution alone, whatever the flags: no branch, no gate call (so
  not even a DRYRUN line), no publish, no tag; and the run it is part of ends normally,
  with the closing line.
\<close>

theorem no_changes_no_commands:
  "sortChangeRequests w = [] \<Longrightarrow>
   publishChanges w tok =
     ([FindChangeRequests (addCommitDetails_value w) tok, SortChangeRequests], Inr ())
   \<and> (GitPolicy_check w \<and> \<not> regenerateChangelogs_value w
        \<and> \<not> (includeAll_value w \<and> publish_value w) \<longrightarrow>
      onExecute w =
        ([ConsoleLog (''Starting '' @ [CHR 0x22] @ ''rush publish'' @ [CHR 0x22] @ '' '' @ EOL w),
          LoadFromDefaultLocation, GitPolicyCheck,
          FindChangeRequests (addCommitDetails_value w)
            (new_PrereleaseToken (prereleaseName_value w) (suffix_value w)),
          SortChangeRequests,
          ConsoleLog (EOL w @ colors_green w ''Rush publish finished successfully.'')], Inr ()))"
  by (auto simp add: publishChanges_def onExecute_def emit_def bind_Inr ret_def)

theorem no_changes_no_commands_witness:
  "sortChangeRequests (example_world\<lparr>sortChangeRequests := [], apply_value := True\<rparr>) = []
   \<and> GitPolicy_check (example_world\<lparr>sortChangeRequests := [], apply_value := True\<rparr>)
   \<and> \<not> regenerateChangelogs_value (example_world\<lparr>sortChangeRequests := [], apply_value := True\<rparr>)
   \<and> \<not> (includeAll_value (example_world\<lparr>sortChangeRequests := [], apply_value := True\<rparr>)
         \<and> publish_value (example_world\<lparr>sortChangeRequests := [], apply_value := True\<rparr>))
   \<and> outcome (onExecute (example_world\<lparr>sortChangeRequests := [], apply_value := True\<rparr>)) = Inr ()
   \<and> length (trace (onExecute (example_world\<lparr>sortChangeRequests := [], apply_value := True\<rparr>))) = 6"
  using no_changes_no_commands
    [of "example_world\<lparr>sortChangeRequests := [], apply_value := True\<rparr>"
        "new_PrereleaseToken None None"]
  by (simp add: example_world_def trace_def outcome_def)

section \<open>A run without flags spawns nothing\<close>

text \<open>
  Claim C1. In a run of the selective workflow with none of \<open>--apply\<close>,
  \<open>--target-branch\<close> and \<open>--publish\<close> set, no process is spawned, every line printed is a
  DRYRUN line of the gate, and the three file-mutating collaborators are only ever called
  with \<open>false\<close>. When the change records name registered projects, the run returns and
  prints one line for each planned gate call: none for an empty list of records, and
  otherwise eleven for the git steps, plus one publish and one tag for each record above
  dependency whose project is to be published.
\<close>

theorem dry_run_spawns_nothing:
  assumes "\<not> apply_value w" and "\<not> truthy (targetBranch_value w)" and "\<not> publish_value w"
  shows "(\<forall>e\<in>set (trace (publishChanges w tok)).
            \<not> is_ExecuteCommand e \<and> (is_ConsoleLog e \<longrightarrow> is_dryrun_line w e)
            \<and> e \<noteq> UpdatePackages True tok \<and> e \<noteq> UpdateChangelogs True
            \<and> e \<noteq> DeleteAll True)
       \<and> (changes_registered w \<longrightarrow>
            outcome (publishChanges w tok) = Inr ()
          \<and> length (filter is_ConsoleLog (trace (publishChanges w tok))) =
              (if sortChangeRequests w = [] then 0
               else 11 + 2 * length (filter (publishable w) (sortChangeRequests w))))"
proof (cases "sortChangeRequests w = []")
  case True
  then show ?thesis by (simp add: publishChanges_none trace_def outcome_def)
next
  case False
  define P where "P = (\<lambda>e. \<not> is_ExecuteCommand e \<and> (is_ConsoleLog e \<longrightarrow> is_dryrun_line w e)
            \<and> e \<noteq> UpdatePackages True tok \<and> e \<noteq> UpdateChangelogs True
            \<and> e \<noteq> DeleteAll True)"
  have dry: "\<forall>e\<in>set (gate_events w b c a d en). P e"
    if "b \<longrightarrow> truthy (targetBranch_value w) \<or> publish_value w" for b c a d en
    using that assms by (simp add: gate_events_dry gate_line_startsWith P_def)
  have tail: "\<forall>e\<in>set (fst (selective_tail w)). P e"
    by (rule tail_events) (rule dry)
  have pre: "\<forall>e\<in>set (selective_prelude w tok). P e"
    using assms dry [of "truthy (targetBranch_value w)"]
    by (simp add: selective_prelude_def trace_def git_eqs ball_Un) (auto simp: P_def)
  have A: "\<forall>e\<in>set (trace (publishChanges w tok)). P e"
    using pre tail by (simp add: publishChanges_split [OF False] trace_def ball_Un)
  have B: "outcome (publishChanges w tok) = Inr ()
          \<and> length (filter is_ConsoleLog (trace (publishChanges w tok))) =
               11 + 2 * length (filter (publishable w) (sortChangeRequests w))"
    if "changes_registered w"
    using selective_logs [OF that False, of tok] publishChanges_eq [OF that False, of tok]
    by (simp add: outcome_def)
  show ?thesis using A B False by (simp add: P_def)
qed

theorem dry_run_spawns_nothing_witness:
  "\<not> apply_value example_world \<and> \<not> truthy (targetBranch_value example_world)
   \<and> \<not> publish_value example_world \<and> changes_registered example_world
   \<and> outcome (publishChanges example_world (new_PrereleaseToken None None)) = Inr ()
   \<and> length (filter is_ConsoleLog
        (trace (publishChanges example_world (new_PrereleaseToken None None)))) = 13
   \<and> filter is_ExecuteCommand
        (trace (publishChanges example_world (new_PrereleaseToken None None))) = []"
proof -
  have flags: "\<not> apply_value example_world" "\<not> truthy (targetBranch_value example_world)"
    "\<not> publish_value example_world"
    by (simp_all add: example_world_def)
  have reg: "changes_registered example_world"
    by (simp add: example_world_def changes_registered_def registered_def)
  have n: "length (filter (publishable example_world) (sortChangeRequests example_world)) = 1"
    by (simp add: example_world_def publishable_def)
  have ne: "sortChangeRequests example_world \<noteq> []"
    by (simp add: example_world_def)
  show ?thesis
    using dry_run_spawns_nothing [OF flags, of "new_PrereleaseToken None None"] flags reg n ne
    by (simp add: filter_empty_conv)
qed

section \<open>Which records are published and tagged\<close>



section \<open>Changelogs and change files under a prerelease token\<close>

text \<open>
  Claim C5, as the code has it. With a prerelease token that has a value, the selective
  workflow never calls the changelog update nor the deletion of the change files, whatever
  the flags. With a token without value and a list of change records that is not empty,
  it calls each once, in this order: the changelog update with the apply flag, and the
  deletion with the disjunction of the apply flag and the presence of the target branch.
\<close>

theorem prerelease_skips_changelogs:
  "(hasValue tok \<longrightarrow>
      (\<forall>e\<in>set (trace (publishChanges w tok)). \<not> is_UpdateChangelogs e \<and> \<not> is_DeleteAll e))
   \<and> (\<not> hasValue tok \<and> sortChangeRequests w \<noteq> [] \<longrightarrow>
        filter (\<lambda>e. is_UpdateChangelogs e \<or> is_DeleteAll e) (trace (publishChanges w tok)) =
          [UpdateChangelogs (apply_value w),
           DeleteAll (apply_value w \<or> truthy (targetBranch_value w))])"
proof (cases "sortChangeRequests w = []")
  case True
  then show ?thesis by (simp add: publishChanges_none trace_def)
next
  case False
  have "\<forall>e\<in>set (fst (selective_tail w)). \<not> (is_UpdateChangelogs e \<or> is_DeleteAll e)"
    by (rule tail_events) (simp add: gate_events_def)
  then have tail: "filter (\<lambda>e. is_UpdateChangelogs e \<or> is_DeleteAll e) (fst (selective_tail w)) = []"
    by (rule filter_none)
  have pre: "filter (\<lambda>e. is_UpdateChangelogs e \<or> is_DeleteAll e) (selective_prelude w tok) =
      (if hasValue tok then []
       else [UpdateChangelogs (apply_value w),
             DeleteAll (apply_value w \<or> truthy (targetBranch_value w))])"
    by (simp add: selective_prelude_def trace_def git_eqs gate_events_no_changelog)
  have all: "filter (\<lambda>e. is_UpdateChangelogs e \<or> is_DeleteAll e) (trace (publishChanges w tok)) =
      (if hasValue tok then []
       else [UpdateChangelogs (apply_value w),
             DeleteAll (apply_value w \<or> truthy (targetBranch_value w))])"
    by (simp add: publishChanges_split [OF False] trace_def pre tail)
  show ?thesis
  proof (cases "hasValue tok")
    case True
    with all have "filter (\<lambda>e. is_UpdateChangelogs e \<or> is_DeleteAll e)
        (trace (publishChanges w tok)) = []" by simp
    then have "\<forall>e\<in>set (trace (publishChanges w tok)). \<not> (is_UpdateChangelogs e \<or> is_DeleteAll e)"
      by (simp add: filter_empty_conv)
    with True show ?thesis by simp
  next
    case False
    with all show ?thesis by simp
  qed
qed

theorem prerelease_skips_changelogs_witness:
  "hasValue (new_PrereleaseToken (Some ''beta'') None)
   \<and> filter (\<lambda>e. is_UpdateChangelogs e \<or> is_DeleteAll e)
        (trace (publishChanges (example_world\<lparr>apply_value := True\<rparr>)
                  (new_PrereleaseToken (Some ''beta'') None))) = []
   \<and> \<not> hasValue (new_PrereleaseToken None None)
   \<and> sortChangeRequests (example_world\<lparr>apply_value := True\<rparr>) \<noteq> []
   \<and> filter (\<lambda>e. is_UpdateChangelogs e \<or> is_DeleteAll e)
        (trace (publishChanges (example_world\<lparr>apply_value := True\<rparr>)
                  (new_PrereleaseToken None None))) =
       [UpdateChangelogs True, DeleteAll True]"
proof -
  have h1: "hasValue (new_PrereleaseToken (Some ''beta'') None)"
    by (simp add: hasValue_def new_PrereleaseToken_def)
  have h2: "\<not> hasValue (new_PrereleaseToken None None)"
    by (simp add: hasValue_def new_PrereleaseToken_def)
  have h3: "sortChangeRequests (example_world\<lparr>apply_value := True\<rparr>) \<noteq> []"
    "apply_value (example_world\<lparr>apply_value := True\<rparr>)"
    by (simp_all add: example_world_def)
  show ?thesis
    using prerelease_skips_changelogs
            [of "new_PrereleaseToken (Some ''beta'') None" "example_world\<lparr>apply_value := True\<rparr>"]
          prerelease_skips_changelogs
            [of "new_PrereleaseToken None None" "example_world\<lparr>apply_value := True\<rparr>"]
          h1 h2 h3
    by (simp add: filter_empty_conv)
qed

text \<open>
  Claim C5, as the specification words it, fails for an empty list of change records: with
  \<open>--apply\<close> set and no prerelease token, the workflow ends after change resolution, and
  neither the changelog update nor the deletion is called.
\<close>

theorem changelog_steps_need_changes:
  "apply_value (example_world\<lparr>sortChangeRequests := [], apply_value := True\<rparr>)
   \<and> \<not> hasValue (new_PrereleaseToken None None)
   \<and> trace (publishChanges (example_world\<lparr>sortChangeRequests := [], apply_value := True\<rparr>)
        (new_PrereleaseToken None None)) =
       [FindChangeRequests False (new_PrereleaseToken None None), SortChangeRequests]
   \<and> UpdateChangelogs True
       \<notin> set (trace (publishChanges (example_world\<lparr>sortChangeRequests := [], apply_value := True\<rparr>)
                  (new_PrereleaseToken None None)))
   \<and> DeleteAll True
       \<notin> set (trace (publishChanges (example_world\<lparr>sortChangeRequests := [], apply_value := True\<rparr>)
                  (new_PrereleaseToken None None)))"
  by (simp add: publishChanges_none trace_def example_world_def hasValue_def
        new_PrereleaseToken_def)

section \<open>The publish-all workflow\<close>

text \<open>
  Claim C6. The map of projects having unique keys, the publish-all workflow is the one
  the specification describes (\<open>spec_publishAll\<close>): it goes through the projects in order;
  a project with \<open>shouldPublish\<close> gets the publish step and the tag step if and only if
  \<open>--force\<close> is set or its package.json version is not in the list of the registry, and
  is otherwise skipped with a line, neither published nor tagged; a project without
  \<open>shouldPublish\<close> is passed over; after the scan the target branch is pushed if and only
  if some project was published. The run returns.
\<close>

theorem publishAll_follows_registry:
  "distinct (map fst (projectsByName w)) \<Longrightarrow> publishAll w = spec_publishAll w"
  by (rule publishAll_eq)

theorem publishAll_follows_registry_witness:
  "distinct (map fst (projectsByName (example_world\<lparr>includeAll_value := True, publish_value := True\<rparr>)))
   \<and> publishAll (example_world\<lparr>includeAll_value := True, publish_value := True\<rparr>) =
       ([PublishedVersions ''pkgA'' ''/repo/a'' Map.empty,
         ConsoleLog ''Skip pkgA. Not updated.''], Inr ())
   \<and> trace (publishAll (example_world\<lparr>includeAll_value := True, publish_value := True,
                                       force_value := True\<rparr>)) =
       [ConsoleLog ([CHR 0x0A] @ ''* EXECUTING: npm publish --force (a)''),
        ExecuteCommand ''npm'' [''publish'', ''--force''] ''/repo/a'' False (Some Map.empty),
        ConsoleLog ([CHR 0x0A] @ ''* DRYRUN: git tag -a pkgA_v1.0.0 -m '' @ [CHR 0x22]
                      @ ''pkgA v1.0.0'' @ [CHR 0x22] @ '' ''),
        ConsoleLog ([CHR 0x0A]
                      @ ''* DRYRUN: git push origin HEAD:null --follow-tags --verbose '')]"
proof -
  let ?w = "example_world\<lparr>includeAll_value := True, publish_value := True\<rparr>"
  let ?f = "example_world\<lparr>includeAll_value := True, publish_value := True, force_value := True\<rparr>"
  have d: "distinct (map fst (projectsByName ?w))" "distinct (map fst (projectsByName ?f))"
    by (simp_all add: example_world_def)
  have e: "npm_env ?w = Map.empty" "npm_env ?f = Map.empty"
    by (simp_all add: npm_env_def example_world_def)
  have s1: "spec_publishAll ?w =
       ([PublishedVersions ''pkgA'' ''/repo/a'' Map.empty,
         ConsoleLog ''Skip pkgA. Not updated.''], Inr ())"
    unfolding spec_publishAll_def spec_publishAll_project_def published_def needs_publish_def e
    by (simp add: example_world_def)
  have s2: "spec_publishAll ?f =
       ([ConsoleLog ([CHR 0x0A] @ ''* EXECUTING: npm publish --force (a)''),
        ExecuteCommand ''npm'' [''publish'', ''--force''] ''/repo/a'' False (Some Map.empty),
        ConsoleLog ([CHR 0x0A] @ ''* DRYRUN: git tag -a pkgA_v1.0.0 -m '' @ [CHR 0x22]
                      @ ''pkgA v1.0.0'' @ [CHR 0x22] @ '' ''),
        ConsoleLog ([CHR 0x0A]
                      @ ''* DRYRUN: git push origin HEAD:null --follow-tags --verbose '')],
        Inr ())"
    unfolding spec_publishAll_def spec_publishAll_project_def published_def needs_publish_def e
    by (simp add: example_world_def gate_events_def gate_line_def working_directory_def
          npm_args_def tag_args_def tag_gate_def push_args_def)
  show ?thesis
    using publishAll_follows_registry [OF d(1)] publishAll_follows_registry [OF d(2)] d s1 s2
    by (simp add: trace_def)
qed

text \<open>
  Claim C10. In the publish-all workflow, over a map with unique keys, every command goes
  through the gate with its own condition, whatever the flags: for each project to publish,
  the registry publish is printed and is spawned if and only if \<open>--publish\<close> is set; its
  \<open>git tag\<close> is printed and is spawned if and only if the target branch is set,
  \<open>--publish\<close> is set and no registry URL is given; and after the scan, when some project
  was published, the \<open>git push\<close> is printed and is spawned if and only if the target
  branch is set. The run is exactly these calls, with the registry questions and the
  lines of the skipped projects, and its spawned processes are exactly the ones named. So
  without a target branch the processes spawned are the registry publishes alone, when
  \<open>--publish\<close> is set, and the tag of each published project and the final push are
  printed as DRYRUN lines.
\<close>

theorem publishAll_gating:
  assumes "distinct (map fst (projectsByName w))"
  shows "trace (publishAll w) =
           concat (map (\<lambda>np.
              if shouldPublish (snd np) then
                (if force_value w then []
                 else [PublishedVersions (project_packageName (snd np)) (projectFolder (snd np))
                         (npm_env w)])
                @ (if needs_publish w (snd np) then
                     [ConsoleLog (gate_line w (publish_value w) (npmToolFilename w) (npm_args w)
                                    (Some (projectFolder (snd np))))]
                     @ (if publish_value w
                        then [ExecuteCommand (npmToolFilename w) (npm_args w)
                                (projectFolder (snd np)) False (Some (npm_env w))]
                        else [])
                     @ [ConsoleLog (gate_line w
                           (truthy (targetBranch_value w) \<and> publish_value w
                              \<and> \<not> truthy (registryUrl_value w))
                           ''git'' (tag_args w (fst np) (packageJson_version (snd np))) None)]
                     @ (if truthy (targetBranch_value w) \<and> publish_value w
                             \<and> \<not> truthy (registryUrl_value w)
                        then [ExecuteCommand ''git''
                                (tag_args w (fst np) (packageJson_version (snd np)))
                                (process_cwd w) False None]
                        else [])
                   else [ConsoleLog (''Skip '' @ fst np @ ''. Not updated.'')])
              else []) (projectsByName w))
           @ (if list_ex (published w) (projectsByName w) then
                [ConsoleLog (gate_line w (truthy (targetBranch_value w)) ''git''
                               (push_args (targetBranch_value w)) None)]
                @ (if truthy (targetBranch_value w)
                   then [ExecuteCommand ''git'' (push_args (targetBranch_value w))
                           (process_cwd w) False None]
                   else [])
              else [])
       \<and> filter is_ExecuteCommand (trace (publishAll w)) =
           concat (map (\<lambda>np.
                (if publish_value w
                 then [ExecuteCommand (npmToolFilename w) (npm_args w) (projectFolder (snd np))
                         False (Some (npm_env w))]
                 else [])
                @ (if truthy (targetBranch_value w) \<and> publish_value w
                        \<and> \<not> truthy (registryUrl_value w)
                   then [ExecuteCommand ''git''
                           (tag_args w (fst np) (packageJson_version (snd np)))
                           (process_cwd w) False None]
                   else []))
              (filter (published w) (projectsByName w)))
           @ (if list_ex (published w) (projectsByName w) \<and> truthy (targetBranch_value w)
              then [ExecuteCommand ''git'' (push_args (targetBranch_value w))
                      (process_cwd w) False None]
              else [])
       \<and> (\<forall>e\<in>set (trace (publishAll w)).
            (is_tag_spawn e \<longrightarrow>
               truthy (targetBranch_value w) \<and> publish_value w
               \<and> \<not> truthy (registryUrl_value w))
          \<and> (is_push_spawn e \<longrightarrow> truthy (targetBranch_value w)))
       \<and> (\<forall>np\<in>set (projectsByName w). published w np \<longrightarrow>
             ConsoleLog (gate_line w (publish_value w) (npmToolFilename w) (npm_args w)
                           (Some (projectFolder (snd np))))
               \<in> set (trace (publishAll w))
           \<and> ConsoleLog (gate_line w
                 (truthy (targetBranch_value w) \<and> publish_value w
                    \<and> \<not> truthy (registryUrl_value w))
                 ''git'' (tag_args w (fst np) (packageJson_version (snd np))) None)
               \<in> set (trace (publishAll w))
           \<and> ConsoleLog (gate_line w (truthy (targetBranch_value w)) ''git''
                 (push_args (targetBranch_value w)) None)
               \<in> set (trace (publishAll w)))
       \<and> (\<not> truthy (targetBranch_value w) \<longrightarrow>
            filter is_ExecuteCommand (trace (publishAll w)) =
              (if publish_value w
               then map (\<lambda>np. ExecuteCommand (npmToolFilename w) (npm_args w)
                                 (projectFolder (snd np)) False (Some (npm_env w)))
                      (filter (published w) (projectsByName w))
               else [])
          \<and> (\<forall>np\<in>set (projectsByName w). published w np \<longrightarrow>
                ConsoleLog (gate_line w False ''git''
                    (tag_args w (fst np) (packageJson_version (snd np))) None)
                  \<in> set (trace (publishAll w))
              \<and> ConsoleLog (gate_line w False ''git'' (push_args (targetBranch_value w)) None)
                  \<in> set (trace (publishAll w))))"
proof -
  have tr: "trace (publishAll w) =
      concat (map (spec_publishAll_project w) (projectsByName w))
        @ (if list_ex (published w) (projectsByName w)
           then gate_events w (truthy (targetBranch_value w)) ''git''
                  (push_args (targetBranch_value w)) None None
           else [])"
    by (simp add: publishAll_eq [OF assms] spec_publishAll_def trace_def)
  have T: "trace (publishAll w) =
           concat (map (\<lambda>np.
              if shouldPublish (snd np) then
                (if force_value w then []
                 else [PublishedVersions (project_packageName (snd np)) (projectFolder (snd np))
                         (npm_env w)])
                @ (if needs_publish w (snd np) then
                     [ConsoleLog (gate_line w (publish_value w) (npmToolFilename w) (npm_args w)
                                    (Some (projectFolder (snd np))))]
                     @ (if publish_value w
                        then [ExecuteCommand (npmToolFilename w) (npm_args w)
                                (projectFolder (snd np)) False (Some (npm_env w))]
                        else [])
                     @ [ConsoleLog (gate_line w
                           (truthy (targetBranch_value w) \<and> publish_value w
                              \<and> \<not> truthy (registryUrl_value w))
                           ''git'' (tag_args w (fst np) (packageJson_version (snd np))) None)]
                     @ (if truthy (targetBranch_value w) \<and> publish_value w
                             \<and> \<not> truthy (registryUrl_value w)
                        then [ExecuteCommand ''git''
                                (tag_args w (fst np) (packageJson_version (snd np)))
                                (process_cwd w) False None]
                        else [])
                   else [ConsoleLog (''Skip '' @ fst np @ ''. Not updated.'')])
              else []) (projectsByName w))
           @ (if list_ex (published w) (projectsByName w) then
                [ConsoleLog (gate_line w (truthy (targetBranch_value w)) ''git''
                               (push_args (targetBranch_value w)) None)]
                @ (if truthy (targetBranch_value w)
                   then [ExecuteCommand ''git'' (push_args (targetBranch_value w))
                           (process_cwd w) False None]
                   else [])
              else [])"
    unfolding tr spec_publishAll_project_explicit
    by (simp add: gate_events_def working_directory_def)
  have S: "filter is_ExecuteCommand (trace (publishAll w)) =
           concat (map (\<lambda>np.
                (if publish_value w
                 then [ExecuteCommand (npmToolFilename w) (npm_args w) (projectFolder (snd np))
                         False (Some (npm_env w))]
                 else [])
                @ (if truthy (targetBranch_value w) \<and> publish_value w
                        \<and> \<not> truthy (registryUrl_value w)
                   then [ExecuteCommand ''git''
                           (tag_args w (fst np) (packageJson_version (snd np)))
                           (process_cwd w) False None]
                   else []))
              (filter (published w) (projectsByName w)))
           @ (if list_ex (published w) (projectsByName w) \<and> truthy (targetBranch_value w)
              then [ExecuteCommand ''git'' (push_args (targetBranch_value w))
                      (process_cwd w) False None]
              else [])"
    unfolding tr
    by (simp add: projects_spawns gate_events_def working_directory_def)
  have A: "\<forall>e\<in>set (trace (publishAll w)).
            (is_tag_spawn e \<longrightarrow>
               truthy (targetBranch_value w) \<and> publish_value w
               \<and> \<not> truthy (registryUrl_value w))
          \<and> (is_push_spawn e \<longrightarrow> truthy (targetBranch_value w))"
    unfolding tr using project_events_gated [of w]
    by (auto simp: gate_events_def push_args_def split: if_splits)
  have L: "ConsoleLog (gate_line w (publish_value w) (npmToolFilename w) (npm_args w)
                           (Some (projectFolder (snd np))))
               \<in> set (trace (publishAll w))
           \<and> ConsoleLog (gate_line w
                 (truthy (targetBranch_value w) \<and> publish_value w
                    \<and> \<not> truthy (registryUrl_value w))
                 ''git'' (tag_args w (fst np) (packageJson_version (snd np))) None)
               \<in> set (trace (publishAll w))
           \<and> ConsoleLog (gate_line w (truthy (targetBranch_value w)) ''git''
                 (push_args (targetBranch_value w)) None)
               \<in> set (trace (publishAll w))"
    if "np \<in> set (projectsByName w)" and "published w np" for np
  proof -
    have ex: "list_ex (published w) (projectsByName w)"
      using that by (auto simp: list_ex_iff)
    have "set (spec_publishAll_project w np)
            \<subseteq> set (concat (map (spec_publishAll_project w) (projectsByName w)))"
      using that(1) by auto
    then show ?thesis
      unfolding tr using project_lines [OF that(2)] ex by (auto simp: gate_events_def)
  qed
  have B: "filter is_ExecuteCommand (trace (publishAll w)) =
              (if publish_value w
               then map (\<lambda>np. ExecuteCommand (npmToolFilename w) (npm_args w)
                                 (projectFolder (snd np)) False (Some (npm_env w)))
                      (filter (published w) (projectsByName w))
               else [])"
    if "\<not> truthy (targetBranch_value w)"
    unfolding S using that by (simp add: concat_singletons concat_empties)
  have C: "ConsoleLog (gate_line w False ''git''
                    (tag_args w (fst np) (packageJson_version (snd np))) None)
                  \<in> set (trace (publishAll w))
              \<and> ConsoleLog (gate_line w False ''git'' (push_args (targetBranch_value w)) None)
                  \<in> set (trace (publishAll w))"
    if "\<not> truthy (targetBranch_value w)" and "np \<in> set (projectsByName w)" and "published w np"
      for np
    using L [OF that(2,3)] that(1) by simp
  show ?thesis using T S A L B C by blast
qed

theorem publishAll_gating_witness:
  "distinct (map fst (projectsByName
      (example_world\<lparr>includeAll_value := True, publish_value := True, force_value := True\<rparr>)))
   \<and> \<not> truthy (targetBranch_value
      (example_world\<lparr>includeAll_value := True, publish_value := True, force_value := True\<rparr>))
   \<and> filter is_ExecuteCommand (trace (publishAll
        (example_world\<lparr>includeAll_value := True, publish_value := True, force_value := True\<rparr>))) =
       [ExecuteCommand ''npm'' [''publish'', ''--force''] ''/repo/a'' False (Some Map.empty)]
   \<and> ConsoleLog ([CHR 0x0A] @ ''* DRYRUN: git tag -a pkgA_v1.0.0 -m '' @ [CHR 0x22]
                      @ ''pkgA v1.0.0'' @ [CHR 0x22] @ '' '')
       \<in> set (trace (publishAll
        (example_world\<lparr>includeAll_value := True, publish_value := True, force_value := True\<rparr>)))
   \<and> ConsoleLog ([CHR 0x0A]
                      @ ''* DRYRUN: git push origin HEAD:null --follow-tags --verbose '')
       \<in> set (trace (publishAll
        (example_world\<lparr>includeAll_value := True, publish_value := True, force_value := True\<rparr>)))
   \<and> distinct (map fst (projectsByName
      (example_world\<lparr>includeAll_value := True, publish_value := True, force_value := True,
                      targetBranch_value := Some ''main''\<rparr>)))
   \<and> filter is_ExecuteCommand (trace (publishAll
        (example_world\<lparr>includeAll_value := True, publish_value := True, force_value := True,
                        targetBranch_value := Some ''main''\<rparr>))) =
       [ExecuteCommand ''npm'' [''publish'', ''--force''] ''/repo/a'' False (Some Map.empty),
        ExecuteCommand ''git''
          [''tag'', ''-a'', ''pkgA_v1.0.0'', ''-m'', [CHR 0x22] @ ''pkgA v1.0.0'' @ [CHR 0x22]]
          ''/repo'' False None,
        ExecuteCommand ''git''
          [''push'', ''origin'', ''HEAD:main'', ''--follow-tags'', ''--verbose'']
          ''/repo'' False None]"
proof -
  let ?f = "example_world\<lparr>includeAll_value := True, publish_value := True, force_value := True\<rparr>"
  let ?m = "example_world\<lparr>includeAll_value := True, publish_value := True, force_value := True,
                      targetBranch_value := Some ''main''\<rparr>"
  let ?a = "(''pkgA'', \<lparr>project_packageName = ''pkgA'', projectFolder = ''/repo/a'',
                     shouldPublish = True, packageJson_version = ''1.0.0''\<rparr>)"
  have d: "distinct (map fst (projectsByName ?f))" and dm: "distinct (map fst (projectsByName ?m))"
    by (simp_all add: example_world_def)
  have tb: "\<not> truthy (targetBranch_value ?f)" and pub: "publish_value ?f"
    by (simp_all add: example_world_def)
  have mem: "?a \<in> set (projectsByName ?f)" and p: "published ?f ?a"
    by (simp_all add: example_world_def published_def needs_publish_def)
  have fl: "filter (published ?f) (projectsByName ?f) = [?a]"
    by (simp add: example_world_def published_def needs_publish_def)
  have flm: "filter (published ?m) (projectsByName ?m) = [?a]"
    and exm: "list_ex (published ?m) (projectsByName ?m)"
    by (simp_all add: example_world_def published_def needs_publish_def)
  have vals: "npmToolFilename ?f = ''npm''" "npm_args ?f = [''publish'', ''--force'']"
    "npm_env ?f = Map.empty"
    "gate_line ?f False ''git'' (tag_args ?f (fst ?a) (packageJson_version (snd ?a))) None =
       [CHR 0x0A] @ ''* DRYRUN: git tag -a pkgA_v1.0.0 -m '' @ [CHR 0x22]
                      @ ''pkgA v1.0.0'' @ [CHR 0x22] @ '' ''"
    "gate_line ?f False ''git'' (push_args (targetBranch_value ?f)) None =
       [CHR 0x0A] @ ''* DRYRUN: git push origin HEAD:null --follow-tags --verbose ''"
    by (simp_all add: example_world_def npm_args_def npm_env_def gate_line_def tag_args_def
          push_args_def working_directory_def)
  have valsm: "npmToolFilename ?m = ''npm''" "npm_args ?m = [''publish'', ''--force'']"
    "npm_env ?m = Map.empty" "process_cwd ?m = ''/repo''" "publish_value ?m"
    "truthy (targetBranch_value ?m)" "\<not> truthy (registryUrl_value ?m)"
    "tag_args ?m (fst ?a) (packageJson_version (snd ?a)) =
       [''tag'', ''-a'', ''pkgA_v1.0.0'', ''-m'', [CHR 0x22] @ ''pkgA v1.0.0'' @ [CHR 0x22]]"
    "push_args (targetBranch_value ?m) =
       [''push'', ''origin'', ''HEAD:main'', ''--follow-tags'', ''--verbose'']"
    by (simp_all add: example_world_def npm_args_def npm_env_def tag_args_def push_args_def)
  note g = publishAll_gating [OF d]
  note gm = publishAll_gating [OF dm]
  have last: "\<not> truthy (targetBranch_value ?f) \<longrightarrow>
            filter is_ExecuteCommand (trace (publishAll ?f)) =
              (if publish_value ?f
               then map (\<lambda>np. ExecuteCommand (npmToolFilename ?f) (npm_args ?f)
                                 (projectFolder (snd np)) False (Some (npm_env ?f)))
                      (filter (published ?f) (projectsByName ?f))
               else [])
          \<and> (\<forall>np\<in>set (projectsByName ?f). published ?f np \<longrightarrow>
                ConsoleLog (gate_line ?f False ''git''
                    (tag_args ?f (fst np) (packageJson_version (snd np))) None)
                  \<in> set (trace (publishAll ?f))
              \<and> ConsoleLog (gate_line ?f False ''git'' (push_args (targetBranch_value ?f)) None)
                  \<in> set (trace (publishAll ?f)))"
    using g by (elim conjE)
  have s1: "filter is_ExecuteCommand (trace (publishAll ?f)) =
          map (\<lambda>np. ExecuteCommand (npmToolFilename ?f) (npm_args ?f)
                                 (projectFolder (snd np)) False (Some (npm_env ?f)))
                      (filter (published ?f) (projectsByName ?f))"
    using last tb pub by simp
  have l1: "ConsoleLog (gate_line ?f False ''git''
                    (tag_args ?f (fst ?a) (packageJson_version (snd ?a))) None)
                  \<in> set (trace (publishAll ?f))
              \<and> ConsoleLog (gate_line ?f False ''git'' (push_args (targetBranch_value ?f)) None)
                  \<in> set (trace (publishAll ?f))"
    using last tb mem p by blast
  have s2: "filter is_ExecuteCommand (trace (publishAll ?m)) =
           concat (map (\<lambda>np.
                (if publish_value ?m
                 then [ExecuteCommand (npmToolFilename ?m) (npm_args ?m) (projectFolder (snd np))
                         False (Some (npm_env ?m))]
                 else [])
                @ (if truthy (targetBranch_value ?m) \<and> publish_value ?m
                        \<and> \<not> truthy (registryUrl_value ?m)
                   then [ExecuteCommand ''git''
                           (tag_args ?m (fst np) (packageJson_version (snd np)))
                           (process_cwd ?m) False None]
                   else []))
              (filter (published ?m) (projectsByName ?m)))
           @ (if list_ex (published ?m) (projectsByName ?m) \<and> truthy (targetBranch_value ?m)
              then [ExecuteCommand ''git'' (push_args (targetBranch_value ?m))
                      (process_cwd ?m) False None]
              else [])"
    using gm by (elim conjE)
  have s2': "filter is_ExecuteCommand (trace (publishAll ?m)) =
       [ExecuteCommand ''npm'' [''publish'', ''--force''] ''/repo/a'' False (Some Map.empty),
        ExecuteCommand ''git''
          [''tag'', ''-a'', ''pkgA_v1.0.0'', ''-m'', [CHR 0x22] @ ''pkgA v1.0.0'' @ [CHR 0x22]]
          ''/repo'' False None,
        ExecuteCommand ''git''
          [''push'', ''origin'', ''HEAD:main'', ''--follow-tags'', ''--verbose'']
          ''/repo'' False None]"
    unfolding s2 flm using exm valsm by simp
  show ?thesis
    using d dm tb s1 l1 s2' unfolding fl vals by simp
qed

section \<open>Which workflow runs\<close>

text \<open>
  Claim C9, as the code has it. After a policy check that passes: with \<open>--include-all\<close>
  set and \<open>--publish\<close> not set, the process does not exit, and when
  \<open>--regenerate-changelogs\<close> is not set either, the run is the run of the selective
  workflow; and the run is the run of the publish-all workflow if and only if
  \<open>--include-all\<close> and \<open>--publish\<close> are both set and \<open>--regenerate-changelogs\<close> is not.
\<close>

theorem workflow_selection:
  assumes "GitPolicy_check w"
  shows "(includeAll_value w \<and> \<not> publish_value w \<longrightarrow>
            filter is_ProcessExit (trace (onExecute w)) = []
          \<and> (\<not> regenerateChangelogs_value w \<longrightarrow> onExecute w = run_selective w))
       \<and> (onExecute w = run_publishAll w \<longleftrightarrow>
            includeAll_value w \<and> publish_value w \<and> \<not> regenerateChangelogs_value w)"
proof -
  have noexit: "filter is_ProcessExit (trace (run_selective w)) = []"
  proof -
    have "\<forall>e\<in>set (fst (run_selective w)). \<not> is_ProcessExit e"
      unfolding run_selective_def
      by (rule run_with_events) (simp_all add: publishChanges_no_exit)
    then show ?thesis by (simp add: trace_def filter_empty_conv)
  qed
  have A1: "onExecute w = run_selective w"
    if "includeAll_value w \<and> \<not> publish_value w" and "\<not> regenerateChangelogs_value w"
    using that assms by (simp add: onExecute_selective)
  have A2: "filter is_ProcessExit (trace (onExecute w)) = []"
    if "includeAll_value w \<and> \<not> publish_value w"
  proof (cases "regenerateChangelogs_value w")
    case True
    with assms show ?thesis
      by (simp add: onExecute_def emit_def bind_Inr ret_def trace_def)
  next
    case False
    with that noexit show ?thesis by (simp add: A1)
  qed
  have B: "onExecute w = run_publishAll w"
    if "includeAll_value w \<and> publish_value w \<and> \<not> regenerateChangelogs_value w"
    using that assms by (simp add: onExecute_publishAll)
  have C: "includeAll_value w \<and> publish_value w \<and> \<not> regenerateChangelogs_value w"
    if eq: "onExecute w = run_publishAll w"
  proof (rule ccontr)
    assume neg: "\<not> (includeAll_value w \<and> publish_value w \<and> \<not> regenerateChangelogs_value w)"
    show False
    proof (cases "regenerateChangelogs_value w")
      case True
      then have "RegenerateChangelogs \<in> set (fst (run_publishAll w))"
        using onExecute_regenerate [OF assms] eq by simp
      then show False using run_publishAll_events [of w] by blast
    next
      case False
      with neg have "onExecute w = run_selective w"
        using assms by (simp add: onExecute_selective)
      moreover obtain r r' where "fst (run_selective w) =
          [ConsoleLog (''Starting '' @ [CHR 0x22] @ ''rush publish'' @ [CHR 0x22] @ '' '' @ EOL w),
           LoadFromDefaultLocation, GitPolicyCheck]
          @ (FindChangeRequests (addCommitDetails_value w)
               (new_PrereleaseToken (prereleaseName_value w) (suffix_value w)) # r) @ r'"
        unfolding run_selective_def
        using run_with_starts [of w "publishChanges w
                (new_PrereleaseToken (prereleaseName_value w) (suffix_value w))"]
          publishChanges_starts [of w "new_PrereleaseToken (prereleaseName_value w) (suffix_value w)"]
        by auto
      ultimately have "FindChangeRequests (addCommitDetails_value w)
               (new_PrereleaseToken (prereleaseName_value w) (suffix_value w))
          \<in> set (fst (run_publishAll w))"
        using eq by simp
      then show False using run_publishAll_events [of w] by force
    qed
  qed
  show ?thesis using A1 A2 B C by blast
qed

theorem workflow_selection_witness:
  "GitPolicy_check (example_world\<lparr>includeAll_value := True\<rparr>)
   \<and> includeAll_value (example_world\<lparr>includeAll_value := True\<rparr>)
   \<and> \<not> publish_value (example_world\<lparr>includeAll_value := True\<rparr>)
   \<and> \<not> regenerateChangelogs_value (example_world\<lparr>includeAll_value := True\<rparr>)
   \<and> onExecute (example_world\<lparr>includeAll_value := True\<rparr>) =
       run_selective (example_world\<lparr>includeAll_value := True\<rparr>)
   \<and> onExecute (example_world\<lparr>includeAll_value := True\<rparr>) \<noteq>
       run_publishAll (example_world\<lparr>includeAll_value := True\<rparr>)
   \<and> GitPolicy_check (example_world\<lparr>includeAll_value := True, publish_value := True\<rparr>)
   \<and> onExecute (example_world\<lparr>includeAll_value := True, publish_value := True\<rparr>) =
       run_publishAll (example_world\<lparr>includeAll_value := True, publish_value := True\<rparr>)"
proof -
  have a: "GitPolicy_check (example_world\<lparr>includeAll_value := True\<rparr>)"
    "includeAll_value (example_world\<lparr>includeAll_value := True\<rparr>)"
    "\<not> publish_value (example_world\<lparr>includeAll_value := True\<rparr>)"
    "\<not> regenerateChangelogs_value (example_world\<lparr>includeAll_value := True\<rparr>)"
    by (simp_all add: example_world_def)
  have b: "GitPolicy_check (example_world\<lparr>includeAll_value := True, publish_value := True\<rparr>)"
    "includeAll_value (example_world\<lparr>includeAll_value := True, publish_value := True\<rparr>)"
    "publish_value (example_world\<lparr>includeAll_value := True, publish_value := True\<rparr>)"
    "\<not> regenerateChangelogs_value (example_world\<lparr>includeAll_value := True, publish_value := True\<rparr>)"
    by (simp_all add: example_world_def)
  have s: "onExecute (example_world\<lparr>includeAll_value := True\<rparr>) =
       run_selective (example_world\<lparr>includeAll_value := True\<rparr>)"
    using workflow_selection [OF a(1)] a by blast
  have n: "onExecute (example_world\<lparr>includeAll_value := True\<rparr>) \<noteq>
       run_publishAll (example_world\<lparr>includeAll_value := True\<rparr>)"
    using workflow_selection [OF a(1)] a by blast
  have p: "onExecute (example_world\<lparr>includeAll_value := True, publish_value := True\<rparr>) =
       run_publishAll (example_world\<lparr>includeAll_value := True, publish_value := True\<rparr>)"
    using workflow_selection [OF b(1)] b by blast
  show ?thesis
    using a b(1) s n p by blast
qed

text \<open>
  Claim C9, as the specification words it, fails when \<open>--regenerate-changelogs\<close> is set:
  with \<open>--include-all\<close> and without \<open>--publish\<close>, the run regenerates the changelogs and
  returns, and the selective workflow does not run.
\<close>

theorem regenerate_precedes_selection:
  "GitPolicy_check (example_world\<lparr>includeAll_value := True, regenerateChangelogs_value := True\<rparr>)
   \<and> includeAll_value (example_world\<lparr>includeAll_value := True, regenerateChangelogs_value := True\<rparr>)
   \<and> \<not> publish_value (example_world\<lparr>includeAll_value := True, regenerateChangelogs_value := True\<rparr>)
   \<and> onExecute (example_world\<lparr>includeAll_value := True, regenerateChangelogs_value := True\<rparr>) =
       ([ConsoleLog (''Starting '' @ [CHR 0x22] @ ''rush publish'' @ [CHR 0x22] @ '' '' @ [CHR 0x0A]),
         LoadFromDefaultLocation, GitPolicyCheck,
         ConsoleLog ''Regenerating changelogs'', RegenerateChangelogs], Inr ())
   \<and> onExecute (example_world\<lparr>includeAll_value := True, regenerateChangelogs_value := True\<rparr>) \<noteq>
       run_selective (example_world\<lparr>includeAll_value := True, regenerateChangelogs_value := True\<rparr>)"
proof -
  let ?w = "example_world\<lparr>includeAll_value := True, regenerateChangelogs_value := True\<rparr>"
  have run: "onExecute ?w =
       ([ConsoleLog (''Starting '' @ [CHR 0x22] @ ''rush publish'' @ [CHR 0x22] @ '' '' @ [CHR 0x0A]),
         LoadFromDefaultLocation, GitPolicyCheck,
         ConsoleLog ''Regenerating changelogs'', RegenerateChangelogs], Inr ())"
    by (simp add: onExecute_def example_world_def emit_def bind_Inr ret_def)
  obtain r r' where "fst (run_selective ?w) =
          [ConsoleLog (''Starting '' @ [CHR 0x22] @ ''rush publish'' @ [CHR 0x22] @ '' '' @ EOL ?w),
           LoadFromDefaultLocation, GitPolicyCheck]
          @ (FindChangeRequests (addCommitDetails_value ?w)
               (new_PrereleaseToken (prereleaseName_value ?w) (suffix_value ?w)) # r) @ r'"
    unfolding run_selective_def
    using run_with_starts [of ?w "publishChanges ?w
                (new_PrereleaseToken (prereleaseName_value ?w) (suffix_value ?w))"]
      publishChanges_starts [of ?w "new_PrereleaseToken (prereleaseName_value ?w) (suffix_value ?w)"]
    by auto
  then have "FindChangeRequests (addCommitDetails_value ?w)
               (new_PrereleaseToken (prereleaseName_value ?w) (suffix_value ?w))
      \<in> set (fst (run_selective ?w))"
    by simp
  moreover have "FindChangeRequests (addCommitDetails_value ?w)
               (new_PrereleaseToken (prereleaseName_value ?w) (suffix_value ?w))
      \<notin> set (fst (onExecute ?w))"
    unfolding run by simp
  ultimately have ne: "onExecute ?w \<noteq> run_selective ?w" by metis
  have flags: "GitPolicy_check ?w" "includeAll_value ?w" "\<not> publish_value ?w"
    by (simp_all add: example_world_def)
  show ?thesis using flags run ne by blast
qed

end
